theory Spec2Isabelle
  imports Complex_Main "HOL-Library.Signed_Division"
begin

section \<open>Machine integers\<close>

text \<open>
  Every count and index of the kernels is a C \<open>int\<close>: a 32-bit two's-complement integer on
  the platforms OSKAR builds for. Values are modelled as mathematical integers and every
  arithmetic result is wrapped back into \<open>[-2^31, 2^31)\<close> (signed overflow, which ISO C
  leaves undefined, is what the hardware instruction delivers). Division truncates towards
  zero (\<open>sdiv\<close>), as in C99.
\<close>

definition int32 :: "int \<Rightarrow> int" where
  "int32 v = signed_take_bit 31 v"

definition add32 :: "int \<Rightarrow> int \<Rightarrow> int" where
  "add32 i j = int32 (i + j)"

definition sub32 :: "int \<Rightarrow> int \<Rightarrow> int" where
  "sub32 i j = int32 (i - j)"

definition mul32 :: "int \<Rightarrow> int \<Rightarrow> int" where
  "mul32 i j = int32 (i * j)"

definition div32 :: "int \<Rightarrow> int \<Rightarrow> int" where
  "div32 i j = int32 (i sdiv j)"

section \<open>Baseline indexing\<close>

text \<open>
  The 1D visibility index of \<open>oskar_correlate_gaussian_omp_f\<close> and
  \<open>oskar_correlate_gaussian_omp_d\<close>:
  \<^verbatim>\<open>i = station_q*(num_stations-1) - (station_q-1)*station_q/2 + station_p - station_q - 1;\<close>
  evaluated left to right in \<open>int\<close>.
\<close>

definition baseline_index :: "int \<Rightarrow> int \<Rightarrow> int \<Rightarrow> int" where
  "baseline_index num_stations station_q station_p =
     sub32 (sub32 (add32 (sub32 (mul32 station_q (sub32 num_stations 1))
                                (div32 (mul32 (sub32 station_q 1) station_q) 2))
                         station_p)
                  station_q)
           1"

text \<open>
  The formula as the specification writes it, over the mathematical integers:
  \<open>index = q (num_stations - 1) - (q - 1) q / 2 + (p - q - 1)\<close>.
\<close>

definition baseline_index_spec :: "int \<Rightarrow> int \<Rightarrow> int \<Rightarrow> int" where
  "baseline_index_spec num_stations q p =
     q * (num_stations - 1) - (q - 1) * q div 2 + (p - q - 1)"

text \<open>The pairs visited by the two station loops, and the number of baselines.\<close>

definition station_pairs :: "int \<Rightarrow> (int \<times> int) set" where
  "station_pairs num_stations = {(q, p). 0 \<le> q \<and> q < p \<and> p < num_stations}"

definition total_baselines :: "int \<Rightarrow> int" where
  "total_baselines num_stations = num_stations * (num_stations - 1) div 2"

text \<open>
  The slots written while \<open>station_q = q\<close> is fixed and \<open>station_p\<close> runs over
  \<open>q + 1 .. num_stations - 1\<close>, and the first slot of that block.
\<close>

definition baseline_block :: "int \<Rightarrow> int \<Rightarrow> int set" where
  "baseline_block num_stations q = baseline_index num_stations q ` {q + 1 .. num_stations - 1}"

definition block_start :: "int \<Rightarrow> int \<Rightarrow> int" where
  "block_start n q = q * (n - 1) - (q - 1) * q div 2"

section \<open>Numeric values and vector types\<close>

text \<open>
  A finite floating-point value of the Gaussian correlator is modelled by the real number it
  denotes. The rounding of the floating-point format is the parameter \<open>rnd\<close> of the
  accumulation over the sources, where the two precisions differ in algorithm (plain
  summation in \<open>double\<close>, compensated summation with a guard in \<open>float\<close>): every addition
  and subtraction into the local accumulator and the guard delivers \<open>rnd\<close> of the exact
  result. The single-precision kernel is the instance \<open>rnd = binary32\<close>, the
  double-precision kernel the instance \<open>rnd = binary64\<close>, and \<open>rnd = exact\<close> is the
  idealisation over the real numbers, in which nothing is rounded. The remaining operations
  of the kernel (the baseline lengths, the two attenuation factors, the single add into
  \<open>vis\<close> per baseline) are taken exact throughout. An array argument (\<open>const float*\<close>,
  \<open>float4c*\<close>) is the function from the element offset to the element stored there.

  \<open>float2\<close> and \<open>double2\<close> (fields \<open>x\<close>, \<open>y\<close>) are complex numbers (\<open>x\<close> the real and \<open>y\<close>
  the imaginary part); \<open>float4c\<close> and \<open>double4c\<close> (fields \<open>a\<close>, \<open>b\<close>, \<open>c\<close>, \<open>d\<close>) are
  2 x 2 complex matrices in row-major order. The eight statements
  \<^verbatim>\<open>vis[i].a.x += sum.a.x; ... vis[i].d.y += sum.d.y;\<close> are the componentwise sum \<open>+\<close>.
\<close>

type_synonym 'a array = "int \<Rightarrow> 'a"

datatype float4c = Float4c (c4_a: complex) (c4_b: complex) (c4_c: complex) (c4_d: complex)

instantiation float4c :: ab_group_add
begin

definition zero_float4c :: float4c where
  "zero_float4c = Float4c 0 0 0 0"

definition plus_float4c :: "float4c \<Rightarrow> float4c \<Rightarrow> float4c" where
  "plus_float4c v w =
     Float4c (c4_a v + c4_a w) (c4_b v + c4_b w) (c4_c v + c4_c w) (c4_d v + c4_d w)"

definition uminus_float4c :: "float4c \<Rightarrow> float4c" where
  "uminus_float4c v = Float4c (- c4_a v) (- c4_b v) (- c4_c v) (- c4_d v)"

definition minus_float4c :: "float4c \<Rightarrow> float4c \<Rightarrow> float4c" where
  "minus_float4c v w =
     Float4c (c4_a v - c4_a w) (c4_b v - c4_b w) (c4_c v - c4_c w) (c4_d v - c4_d w)"

instance
  by standard
    (simp_all add: zero_float4c_def plus_float4c_def uminus_float4c_def minus_float4c_def)

end

text \<open>Scaling by a real factor, the matrix product and the Hermitian transpose.\<close>

definition scale4c :: "real \<Rightarrow> float4c \<Rightarrow> float4c" where
  "scale4c r v =
     Float4c (of_real r * c4_a v) (of_real r * c4_b v) (of_real r * c4_c v) (of_real r * c4_d v)"

definition mul4c :: "float4c \<Rightarrow> float4c \<Rightarrow> float4c" where
  "mul4c v w =
     Float4c (c4_a v * c4_a w + c4_b v * c4_c w) (c4_a v * c4_b w + c4_b v * c4_d w)
             (c4_c v * c4_a w + c4_d v * c4_c w) (c4_c v * c4_b w + c4_d v * c4_d w)"

definition herm4c :: "float4c \<Rightarrow> float4c" where
  "herm4c v = Float4c (cnj (c4_a v)) (cnj (c4_c v)) (cnj (c4_b v)) (cnj (c4_d v))"

text \<open>
  Rounding. \<open>exact\<close> rounds nothing. \<open>round_to_multiple u x\<close> is the multiple of \<open>u\<close> nearest to
  \<open>x\<close>, the even multiple when \<open>x\<close> lies halfway between two. \<open>round_nearest_even p\<close> is
  round-to-nearest, ties-to-even, to \<open>p\<close> significant bits, the default rounding of IEEE 754:
  for \<open>2\<^sup>e \<le> |x| < 2\<^sup>e\<^sup>+\<^sup>1\<close> the spacing of the format is \<open>2\<^sup>e\<^sup>-\<^sup>p\<^sup>+\<^sup>1\<close>. The exponent range is not
  bounded (no overflow to infinity and no subnormal numbers). \<open>float\<close> is binary32 with 24
  significant bits, \<open>double\<close> is binary64 with 53.
\<close>

definition exact :: "real \<Rightarrow> real" where
  "exact x = x"

definition round_to_multiple :: "real \<Rightarrow> real \<Rightarrow> real" where
  "round_to_multiple u x =
     (let k = \<lfloor>x / u\<rfloor>;
          r = x / u - of_int k
      in u * of_int (if r < 1 / 2 then k
                     else if 1 / 2 < r then k + 1
                     else if even k then k else k + 1))"

definition round_nearest_even :: "nat \<Rightarrow> real \<Rightarrow> real" where
  "round_nearest_even p x =
     (if x = 0 then 0
      else round_to_multiple (2 powr (of_int \<lfloor>log 2 \<bar>x\<bar>\<rfloor> - of_nat p + 1)) x)"

definition binary32 :: "real \<Rightarrow> real" where
  "binary32 = round_nearest_even 24"

definition binary64 :: "real \<Rightarrow> real" where
  "binary64 = round_nearest_even 53"

text \<open>Rounding of a complex number and of a matrix: of each real and imaginary part.\<close>

definition round_c :: "(real \<Rightarrow> real) \<Rightarrow> complex \<Rightarrow> complex" where
  "round_c rnd z = Complex (rnd (Re z)) (rnd (Im z))"

definition round4c :: "(real \<Rightarrow> real) \<Rightarrow> float4c \<Rightarrow> float4c" where
  "round4c rnd v =
     Float4c (round_c rnd (c4_a v)) (round_c rnd (c4_b v))
             (round_c rnd (c4_c v)) (round_c rnd (c4_d v))"

section \<open>Primitives of the correlator\<close>

text \<open>
  Modelled from the spec: \<open>oskar_sinc_f\<close> and \<open>oskar_sinc_d\<close> (\<open>oskar_sinc.h\<close>) are called by
  the correlator but their definitions are not part of the sources at hand. The
  specification gives the bandwidth-smearing factor as
  \<open>normalized_sinc(x) = sin(\<pi>x)/(\<pi>x)\<close> with \<open>normalized_sinc(0) = 1\<close> exactly.
\<close>

definition normalized_sinc :: "real \<Rightarrow> real" where
  "normalized_sinc x = (if x = 0 then 1 else sin (pi * x) / (pi * x))"

text \<open>
  Modelled from the spec: \<open>oskar_sinc_f\<close> and \<open>oskar_sinc_d\<close> are the normalized sinc in the two
  precisions.
\<close>

definition oskar_sinc_f :: "real \<Rightarrow> real" where
  "oskar_sinc_f x = normalized_sinc x"

definition oskar_sinc_d :: "real \<Rightarrow> real" where
  "oskar_sinc_d x = normalized_sinc x"

text \<open>
  Modelled from the spec: \<open>oskar_accumulate_baseline_visibility_for_source_f\<close> and
  \<open>oskar_accumulate_baseline_visibility_for_source_d\<close>
  (\<open>oskar_accumulate_baseline_visibility_for_source.h\<close>) are likewise called but not defined
  in the sources at hand. By the specification the contribution of source \<open>source_id\<close> is the
  product \<open>J\<^sub>p \<cdot> Brightness \<cdot> J\<^sub>q\<^sup>H\<close> of the Jones matrix of station \<open>p\<close>, the brightness
  matrix derived from the Stokes parameters \<open>(I, Q, U, V)\<close> and the Hermitian transpose of
  the Jones matrix of station \<open>q\<close>, scaled by the weight and added into the local
  accumulator. The map from Stokes parameters to the brightness matrix is the parameter
  \<open>brightness\<close>.
\<close>

definition source_term ::
  "(real \<Rightarrow> real \<Rightarrow> real \<Rightarrow> real \<Rightarrow> float4c) \<Rightarrow> int \<Rightarrow>
   real array \<Rightarrow> real array \<Rightarrow> real array \<Rightarrow> real array \<Rightarrow>
   float4c array \<Rightarrow> float4c array \<Rightarrow> float4c" where
  "source_term brightness source_id I Q U V station_p station_q =
     mul4c (mul4c (station_p source_id)
                  (brightness (I source_id) (Q source_id) (U source_id) (V source_id)))
           (herm4c (station_q source_id))"

text \<open>
  Modelled from the spec: in double precision the primitive adds the contribution, scaled
  by the weight \<open>smearing\<close>, to the local accumulator. The sum is rounded to the format
  (the specification, on ordering: "sum order affects the last bits of the result").
\<close>

definition oskar_accumulate_baseline_visibility_for_source_d ::
  "(real \<Rightarrow> real) \<Rightarrow>
   (real \<Rightarrow> real \<Rightarrow> real \<Rightarrow> real \<Rightarrow> float4c) \<Rightarrow> float4c \<Rightarrow> int \<Rightarrow>
   real array \<Rightarrow> real array \<Rightarrow> real array \<Rightarrow> real array \<Rightarrow>
   float4c array \<Rightarrow> float4c array \<Rightarrow> real \<Rightarrow> float4c" where
  "oskar_accumulate_baseline_visibility_for_source_d rnd brightness vis source_id I Q U V
       station_p station_q smearing =
     round4c rnd
       (vis + scale4c smearing (source_term brightness source_id I Q U V station_p station_q))"

text \<open>
  Modelled from the spec: in single precision the primitive takes the guard accumulator as
  well and adds by compensated (Kahan) summation: the guard holds the rounding error of the
  previous additions, is subtracted from the new term, and is recomputed from the rounded
  sum: \<^verbatim>\<open>y = term - guard; t = sum + y; guard = (t - sum) - y; sum = t;\<close> with every
  addition and subtraction rounded to the format.
\<close>

definition oskar_accumulate_baseline_visibility_for_source_f ::
  "(real \<Rightarrow> real) \<Rightarrow>
   (real \<Rightarrow> real \<Rightarrow> real \<Rightarrow> real \<Rightarrow> float4c) \<Rightarrow> float4c \<Rightarrow> int \<Rightarrow>
   real array \<Rightarrow> real array \<Rightarrow> real array \<Rightarrow> real array \<Rightarrow>
   float4c array \<Rightarrow> float4c array \<Rightarrow> real \<Rightarrow> float4c \<Rightarrow> float4c \<times> float4c" where
  "oskar_accumulate_baseline_visibility_for_source_f rnd brightness vis source_id I Q U V
       station_p station_q smearing guard =
     (let y = round4c rnd
                (scale4c smearing (source_term brightness source_id I Q U V station_p station_q)
                   - guard);
          t = round4c rnd (vis + y)
      in (t, round4c rnd (round4c rnd (t - vis) - y)))"

section \<open>The Gaussian correlator\<close>

text \<open>
  \<open>oskar_correlate_gaussian_omp_f\<close> and \<open>oskar_correlate_gaussian_omp_d\<close>. The constants are
  \<^verbatim>\<open>#define M_PI 3.14159265358979323846\<close> and \<^verbatim>\<open>#define M_PIf 3.14159265358979323846f\<close>.
  A floating-point literal denotes the value of its format nearest to the decimal: \<open>M_PI\<close>
  is the \<open>double\<close> \<open>884279719003555 / 2\<^sup>4\<^sup>8\<close> (\<open>0x1.921fb54442d18p+1\<close>) and \<open>M_PIf\<close>, with the
  suffix \<open>f\<close>, is the \<open>float\<close> \<open>13176795 / 2\<^sup>2\<^sup>2\<close> (\<open>0x1.921fb6p+1\<close>). The two constants differ,
  and neither is the number \<open>pi\<close>.
\<close>

definition M_PI_literal :: real where
  "M_PI_literal = 3.14159265358979323846"

definition M_PI :: real where
  "M_PI = 884279719003555 / 281474976710656"

definition M_PIf :: real where
  "M_PIf = 13176795 / 4194304"

subsection \<open>Single precision\<close>

text \<open>
  The per-baseline setup, in the order of the source: the baseline lengths \<open>uu\<close>, \<open>vv\<close>, the
  quantities \<open>uu2\<close>, \<open>vv2\<close>, \<open>uuvv\<close> of the Gaussian term, and then the rescaling
  \<^verbatim>\<open>uu *= M_PIf * frac_bandwidth; vv *= M_PIf * frac_bandwidth;\<close>
\<close>

definition baseline_lengths_f ::
  "real array \<Rightarrow> real array \<Rightarrow> real \<Rightarrow> real \<Rightarrow> int \<Rightarrow> int \<Rightarrow>
   real \<times> real \<times> real \<times> real \<times> real" where
  "baseline_lengths_f station_u station_v inv_wavelength frac_bandwidth station_q station_p =
     (let uu = (station_u station_p - station_u station_q) * inv_wavelength;
          vv = (station_v station_p - station_v station_q) * inv_wavelength;
          uu2 = uu * uu;
          vv2 = vv * vv;
          uuvv = 2 * uu * vv;
          uu = uu * (M_PIf * frac_bandwidth);
          vv = vv * (M_PIf * frac_bandwidth)
      in (uu, vv, uu2, vv2, uuvv))"

text \<open>
  The two factors of the source loop: \<^verbatim>\<open>r1 = oskar_sinc_f(uu * l + vv * m);\<close> and
  \<^verbatim>\<open>r2 = expf(-(source_a[i] * uu2 + source_b[i] * uuvv + source_c[i] * vv2));\<close>
\<close>

definition smearing_term_f :: "real \<Rightarrow> real \<Rightarrow> real array \<Rightarrow> real array \<Rightarrow> int \<Rightarrow> real" where
  "smearing_term_f uu vv source_l source_m i =
     (let l = source_l i; m = source_m i in oskar_sinc_f (uu * l + vv * m))"

definition gaussian_term_f ::
  "real \<Rightarrow> real \<Rightarrow> real \<Rightarrow> real array \<Rightarrow> real array \<Rightarrow> real array \<Rightarrow> int \<Rightarrow> real" where
  "gaussian_term_f uu2 vv2 uuvv source_a source_b source_c i =
     exp (- (source_a i * uu2 + source_b i * uuvv + source_c i * vv2))"

text \<open>
  The loop over sources \<open>i = 0 .. num_sources - 1\<close>, started with \<open>sum\<close> and \<open>guard\<close> zero;
  \<open>sp\<close> and \<open>sq\<close> are the source vectors of the two stations.
\<close>

definition source_loop_f ::
  "(real \<Rightarrow> real) \<Rightarrow>
   (real \<Rightarrow> real \<Rightarrow> real \<Rightarrow> real \<Rightarrow> float4c) \<Rightarrow> int \<Rightarrow>
   real array \<Rightarrow> real array \<Rightarrow> real array \<Rightarrow> real array \<Rightarrow> real array \<Rightarrow>
   real array \<Rightarrow> real array \<Rightarrow> real array \<Rightarrow> real array \<Rightarrow>
   float4c array \<Rightarrow> float4c array \<Rightarrow> real \<Rightarrow> real \<Rightarrow> real \<Rightarrow> real \<Rightarrow> real \<Rightarrow>
   float4c \<times> float4c" where
  "source_loop_f rnd brightness num_sources source_I source_Q source_U source_V source_l
       source_m source_a source_b source_c sp sq uu vv uu2 vv2 uuvv =
     fold (\<lambda>i (sum, guard).
             let r1 = smearing_term_f uu vv source_l source_m i;
                 r2 = gaussian_term_f uu2 vv2 uuvv source_a source_b source_c i;
                 r1 = r1 * r2
             in oskar_accumulate_baseline_visibility_for_source_f rnd brightness sum i
                  source_I source_Q source_U source_V sp sq r1 guard)
          [0 .. num_sources - 1] (0, 0)"

text \<open>The value of the local accumulator (and guard) of one baseline after the source loop.\<close>

definition baseline_sum_f ::
  "(real \<Rightarrow> real) \<Rightarrow>
   (real \<Rightarrow> real \<Rightarrow> real \<Rightarrow> real \<Rightarrow> float4c) \<Rightarrow> int \<Rightarrow>
   real array \<Rightarrow> real array \<Rightarrow> real array \<Rightarrow> real array \<Rightarrow> real array \<Rightarrow>
   real array \<Rightarrow> real array \<Rightarrow> real array \<Rightarrow> real array \<Rightarrow>
   real array \<Rightarrow> real array \<Rightarrow> real \<Rightarrow> real \<Rightarrow>
   float4c array \<Rightarrow> float4c array \<Rightarrow> int \<Rightarrow> int \<Rightarrow> float4c \<times> float4c" where
  "baseline_sum_f rnd brightness num_sources source_I source_Q source_U source_V
       source_l source_m source_a source_b source_c station_u station_v inv_wavelength
       frac_bandwidth sp sq station_q station_p =
     (case baseline_lengths_f station_u station_v inv_wavelength frac_bandwidth
             station_q station_p of
        (uu, vv, uu2, vv2, uuvv) \<Rightarrow>
          source_loop_f rnd brightness num_sources source_I source_Q source_U source_V
            source_l source_m source_a source_b source_c sp sq uu vv uu2 vv2 uuvv)"

text \<open>
  The body of the loop over \<open>station_p\<close>: accumulate the sources, compute the visibility index
  and add the local sum to that entry of \<open>vis\<close>.
\<close>

definition baseline_body_f ::
  "(real \<Rightarrow> real) \<Rightarrow>
   (real \<Rightarrow> real \<Rightarrow> real \<Rightarrow> real \<Rightarrow> float4c) \<Rightarrow> int \<Rightarrow> int \<Rightarrow> float4c array \<Rightarrow>
   real array \<Rightarrow> real array \<Rightarrow> real array \<Rightarrow> real array \<Rightarrow> real array \<Rightarrow>
   real array \<Rightarrow> real array \<Rightarrow> real array \<Rightarrow> real array \<Rightarrow>
   real array \<Rightarrow> real array \<Rightarrow> real \<Rightarrow> real \<Rightarrow>
   float4c array \<Rightarrow> int \<Rightarrow> int \<Rightarrow> float4c array \<Rightarrow> float4c array" where
  "baseline_body_f rnd brightness num_sources num_stations jones source_I source_Q source_U
       source_V source_l source_m source_a source_b source_c station_u station_v
       inv_wavelength frac_bandwidth sq station_q station_p vis =
     (let sp = (\<lambda>i. jones (mul32 station_p num_sources + i));
          (sum, guard) =
            baseline_sum_f rnd brightness num_sources source_I source_Q source_U source_V
              source_l source_m source_a source_b source_c station_u station_v inv_wavelength
              frac_bandwidth sp sq station_q station_p;
          i = baseline_index num_stations station_q station_p
      in vis(i := vis i + sum))"

text \<open>
  The two station loops. The iterations of the outer loop, which OpenMP distributes over
  threads, are taken in ascending order of \<open>station_q\<close>. The subscripts
  \<open>station_q * num_sources\<close> and \<open>station_p * num_sources\<close> are \<open>int\<close> products.
\<close>

definition oskar_correlate_gaussian_omp_f ::
  "(real \<Rightarrow> real) \<Rightarrow>
   (real \<Rightarrow> real \<Rightarrow> real \<Rightarrow> real \<Rightarrow> float4c) \<Rightarrow> int \<Rightarrow> int \<Rightarrow> float4c array \<Rightarrow>
   real array \<Rightarrow> real array \<Rightarrow> real array \<Rightarrow> real array \<Rightarrow> real array \<Rightarrow>
   real array \<Rightarrow> real array \<Rightarrow> real array \<Rightarrow> real array \<Rightarrow>
   real array \<Rightarrow> real array \<Rightarrow> real \<Rightarrow> real \<Rightarrow> float4c array \<Rightarrow> float4c array" where
  "oskar_correlate_gaussian_omp_f rnd brightness num_sources num_stations jones source_I source_Q
       source_U source_V source_l source_m source_a source_b source_c station_u station_v
       inv_wavelength frac_bandwidth vis =
     fold (\<lambda>station_q vis.
             let sq = (\<lambda>i. jones (mul32 station_q num_sources + i)) in
             fold (\<lambda>station_p vis.
                     baseline_body_f rnd brightness num_sources num_stations jones source_I
                       source_Q source_U source_V source_l source_m source_a source_b source_c
                       station_u station_v inv_wavelength frac_bandwidth sq
                       station_q station_p vis)
                  [station_q + 1 .. num_stations - 1] vis)
          [0 .. num_stations - 1] vis"

subsection \<open>Double precision\<close>

text \<open>The same code with \<open>M_PI\<close>, \<open>oskar_sinc_d\<close>, \<open>exp\<close> and no guard accumulator.\<close>

definition baseline_lengths_d ::
  "real array \<Rightarrow> real array \<Rightarrow> real \<Rightarrow> real \<Rightarrow> int \<Rightarrow> int \<Rightarrow>
   real \<times> real \<times> real \<times> real \<times> real" where
  "baseline_lengths_d station_u station_v inv_wavelength frac_bandwidth station_q station_p =
     (let uu = (station_u station_p - station_u station_q) * inv_wavelength;
          vv = (station_v station_p - station_v station_q) * inv_wavelength;
          uu2 = uu * uu;
          vv2 = vv * vv;
          uuvv = 2 * uu * vv;
          uu = uu * (M_PI * frac_bandwidth);
          vv = vv * (M_PI * frac_bandwidth)
      in (uu, vv, uu2, vv2, uuvv))"

definition smearing_term_d :: "real \<Rightarrow> real \<Rightarrow> real array \<Rightarrow> real array \<Rightarrow> int \<Rightarrow> real" where
  "smearing_term_d uu vv source_l source_m i =
     (let l = source_l i; m = source_m i in oskar_sinc_d (uu * l + vv * m))"

definition gaussian_term_d ::
  "real \<Rightarrow> real \<Rightarrow> real \<Rightarrow> real array \<Rightarrow> real array \<Rightarrow> real array \<Rightarrow> int \<Rightarrow> real" where
  "gaussian_term_d uu2 vv2 uuvv source_a source_b source_c i =
     exp (- (source_a i * uu2 + source_b i * uuvv + source_c i * vv2))"

definition source_loop_d ::
  "(real \<Rightarrow> real) \<Rightarrow>
   (real \<Rightarrow> real \<Rightarrow> real \<Rightarrow> real \<Rightarrow> float4c) \<Rightarrow> int \<Rightarrow>
   real array \<Rightarrow> real array \<Rightarrow> real array \<Rightarrow> real array \<Rightarrow> real array \<Rightarrow>
   real array \<Rightarrow> real array \<Rightarrow> real array \<Rightarrow> real array \<Rightarrow>
   float4c array \<Rightarrow> float4c array \<Rightarrow> real \<Rightarrow> real \<Rightarrow> real \<Rightarrow> real \<Rightarrow> real \<Rightarrow>
   float4c" where
  "source_loop_d rnd brightness num_sources source_I source_Q source_U source_V source_l
       source_m source_a source_b source_c sp sq uu vv uu2 vv2 uuvv =
     fold (\<lambda>i sum.
             let r1 = smearing_term_d uu vv source_l source_m i;
                 r2 = gaussian_term_d uu2 vv2 uuvv source_a source_b source_c i;
                 r1 = r1 * r2
             in oskar_accumulate_baseline_visibility_for_source_d rnd brightness sum i
                  source_I source_Q source_U source_V sp sq r1)
          [0 .. num_sources - 1] 0"

definition baseline_sum_d ::
  "(real \<Rightarrow> real) \<Rightarrow>
   (real \<Rightarrow> real \<Rightarrow> real \<Rightarrow> real \<Rightarrow> float4c) \<Rightarrow> int \<Rightarrow>
   real array \<Rightarrow> real array \<Rightarrow> real array \<Rightarrow> real array \<Rightarrow> real array \<Rightarrow>
   real array \<Rightarrow> real array \<Rightarrow> real array \<Rightarrow> real array \<Rightarrow>
   real array \<Rightarrow> real array \<Rightarrow> real \<Rightarrow> real \<Rightarrow>
   float4c array \<Rightarrow> float4c array \<Rightarrow> int \<Rightarrow> int \<Rightarrow> float4c" where
  "baseline_sum_d rnd brightness num_sources source_I source_Q source_U source_V
       source_l source_m source_a source_b source_c station_u station_v inv_wavelength
       frac_bandwidth sp sq station_q station_p =
     (case baseline_lengths_d station_u station_v inv_wavelength frac_bandwidth
             station_q station_p of
        (uu, vv, uu2, vv2, uuvv) \<Rightarrow>
          source_loop_d rnd brightness num_sources source_I source_Q source_U source_V
            source_l source_m source_a source_b source_c sp sq uu vv uu2 vv2 uuvv)"

definition baseline_body_d ::
  "(real \<Rightarrow> real) \<Rightarrow>
   (real \<Rightarrow> real \<Rightarrow> real \<Rightarrow> real \<Rightarrow> float4c) \<Rightarrow> int \<Rightarrow> int \<Rightarrow> float4c array \<Rightarrow>
   real array \<Rightarrow> real array \<Rightarrow> real array \<Rightarrow> real array \<Rightarrow> real array \<Rightarrow>
   real array \<Rightarrow> real array \<Rightarrow> real array \<Rightarrow> real array \<Rightarrow>
   real array \<Rightarrow> real array \<Rightarrow> real \<Rightarrow> real \<Rightarrow>
   float4c array \<Rightarrow> int \<Rightarrow> int \<Rightarrow> float4c array \<Rightarrow> float4c array" where
  "baseline_body_d rnd brightness num_sources num_stations jones source_I source_Q source_U
       source_V source_l source_m source_a source_b source_c station_u station_v
       inv_wavelength frac_bandwidth sq station_q station_p vis =
     (let sp = (\<lambda>i. jones (mul32 station_p num_sources + i));
          sum =
            baseline_sum_d rnd brightness num_sources source_I source_Q source_U source_V
              source_l source_m source_a source_b source_c station_u station_v inv_wavelength
              frac_bandwidth sp sq station_q station_p;
          i = baseline_index num_stations station_q station_p
      in vis(i := vis i + sum))"

definition oskar_correlate_gaussian_omp_d ::
  "(real \<Rightarrow> real) \<Rightarrow>
   (real \<Rightarrow> real \<Rightarrow> real \<Rightarrow> real \<Rightarrow> float4c) \<Rightarrow> int \<Rightarrow> int \<Rightarrow> float4c array \<Rightarrow>
   real array \<Rightarrow> real array \<Rightarrow> real array \<Rightarrow> real array \<Rightarrow> real array \<Rightarrow>
   real array \<Rightarrow> real array \<Rightarrow> real array \<Rightarrow> real array \<Rightarrow>
   real array \<Rightarrow> real array \<Rightarrow> real \<Rightarrow> real \<Rightarrow> float4c array \<Rightarrow> float4c array" where
  "oskar_correlate_gaussian_omp_d rnd brightness num_sources num_stations jones source_I source_Q
       source_U source_V source_l source_m source_a source_b source_c station_u station_v
       inv_wavelength frac_bandwidth vis =
     fold (\<lambda>station_q vis.
             let sq = (\<lambda>i. jones (mul32 station_q num_sources + i)) in
             fold (\<lambda>station_p vis.
                     baseline_body_d rnd brightness num_sources num_stations jones source_I
                       source_Q source_U source_V source_l source_m source_a source_b source_c
                       station_u station_v inv_wavelength frac_bandwidth sq
                       station_q station_p vis)
                  [station_q + 1 .. num_stations - 1] vis)
          [0 .. num_stations - 1] vis"

subsection \<open>Baselines visited and slots written\<close>

text \<open>
  The pairs \<open>(station_q, station_p)\<close> in the order in which the two station loops visit
  them, and the sequence of entries of \<open>vis\<close> that the correlator writes: one per visited
  baseline.
\<close>

definition baselines_visited :: "int \<Rightarrow> (int \<times> int) list" where
  "baselines_visited num_stations =
     concat (map (\<lambda>station_q. map (\<lambda>station_p. (station_q, station_p))
                                   [station_q + 1 .. num_stations - 1])
                 [0 .. num_stations - 1])"

definition vis_writes :: "int \<Rightarrow> int list" where
  "vis_writes num_stations =
     map (\<lambda>(station_q, station_p). baseline_index num_stations station_q station_p)
         (baselines_visited num_stations)"

text \<open>
  \<open>duplicated n xs ys\<close>: the first \<open>2 n\<close> elements of \<open>ys\<close> are the first \<open>n\<close> elements of
  \<open>xs\<close> followed by an identical copy.
\<close>

definition duplicated :: "int \<Rightarrow> 'a array \<Rightarrow> 'a array \<Rightarrow> bool" where
  "duplicated n xs ys \<longleftrightarrow> (\<forall>i. 0 \<le> i \<and> i < n \<longrightarrow> ys i = xs i \<and> ys (i + n) = xs i)"

text \<open>
  The same for the Jones matrices, which are stored station by station: the source vector of
  every station \<open>s\<close>, as the correlator addresses it (\<^verbatim>\<open>&jones[s * num_sources]\<close>, and
  \<^verbatim>\<open>&jones'[s * (2 * num_sources)]\<close> after doubling), is duplicated.
\<close>

definition jones_duplicated :: "int \<Rightarrow> int \<Rightarrow> float4c array \<Rightarrow> float4c array \<Rightarrow> bool" where
  "jones_duplicated num_sources num_stations jones jones' \<longleftrightarrow>
     (\<forall>s. 0 \<le> s \<and> s < num_stations \<longrightarrow>
        duplicated num_sources (\<lambda>i. jones (mul32 s num_sources + i))
                               (\<lambda>i. jones' (mul32 s (2 * num_sources) + i)))"

section \<open>The average scalar cross-power beam\<close>

subsection \<open>Floating-point values with infinities and NaN\<close>

text \<open>
  The normalisation of this kernel divides by a value that can be zero, so its values are
  modelled with the special values of IEEE 754: a value is finite (an exact real), plus or
  minus infinity, or NaN. Zero carries no sign; the only zero divisor of the kernel is the
  converted integer \<open>0\<close>, which is \<open>+0\<close>, so a finite non-zero value divided by zero is the
  infinity of its own sign.
\<close>

datatype fp = Finite real | PlusInf | MinusInf | NaN

fun fp_neg :: "fp \<Rightarrow> fp" where
  "fp_neg (Finite r) = Finite (- r)"
| "fp_neg PlusInf = MinusInf"
| "fp_neg MinusInf = PlusInf"
| "fp_neg NaN = NaN"

fun fp_add :: "fp \<Rightarrow> fp \<Rightarrow> fp" where
  "fp_add (Finite r) (Finite s) = Finite (r + s)"
| "fp_add NaN v = NaN"
| "fp_add v NaN = NaN"
| "fp_add PlusInf MinusInf = NaN"
| "fp_add MinusInf PlusInf = NaN"
| "fp_add PlusInf v = PlusInf"
| "fp_add v PlusInf = PlusInf"
| "fp_add MinusInf v = MinusInf"
| "fp_add v MinusInf = MinusInf"

definition fp_sub :: "fp \<Rightarrow> fp \<Rightarrow> fp" where
  "fp_sub v w = fp_add v (fp_neg w)"

definition fp_signed_inf :: "real \<Rightarrow> fp" where
  "fp_signed_inf r = (if r = 0 then NaN else if 0 < r then PlusInf else MinusInf)"

fun fp_mul :: "fp \<Rightarrow> fp \<Rightarrow> fp" where
  "fp_mul (Finite r) (Finite s) = Finite (r * s)"
| "fp_mul NaN v = NaN"
| "fp_mul v NaN = NaN"
| "fp_mul (Finite r) PlusInf = fp_signed_inf r"
| "fp_mul PlusInf (Finite r) = fp_signed_inf r"
| "fp_mul (Finite r) MinusInf = fp_signed_inf (- r)"
| "fp_mul MinusInf (Finite r) = fp_signed_inf (- r)"
| "fp_mul PlusInf PlusInf = PlusInf"
| "fp_mul MinusInf MinusInf = PlusInf"
| "fp_mul PlusInf MinusInf = MinusInf"
| "fp_mul MinusInf PlusInf = MinusInf"

fun fp_div :: "fp \<Rightarrow> fp \<Rightarrow> fp" where
  "fp_div (Finite r) (Finite s) = (if s = 0 then fp_signed_inf r else Finite (r / s))"
| "fp_div NaN v = NaN"
| "fp_div v NaN = NaN"
| "fp_div (Finite r) v = Finite 0"
| "fp_div PlusInf (Finite s) = (if 0 \<le> s then PlusInf else MinusInf)"
| "fp_div MinusInf (Finite s) = (if 0 \<le> s then MinusInf else PlusInf)"
| "fp_div v w = NaN"

definition fp_of_int :: "int \<Rightarrow> fp" where
  "fp_of_int k = Finite (of_int k)"

text \<open>\<open>float2\<close> and \<open>double2\<close>: the fields \<open>x\<close> and \<open>y\<close> of a complex value.\<close>

datatype float2 = Float2 (f2_x: fp) (f2_y: fp)

text \<open>
  Modelled from the spec: the macro \<open>OSKAR_MULTIPLY_ADD_COMPLEX_CONJUGATE\<close>
  (\<open>oskar_correlate_functions_inline.h\<close>) is used by the kernel but not defined in the
  sources at hand. The kernel documents it as \<^verbatim>\<open>Multiply-add: val += p * conj(q)\<close>, the
  multiply-accumulate-conjugate primitive of the specification.
\<close>

definition multiply_complex_conjugate :: "float2 \<Rightarrow> float2 \<Rightarrow> float2" where
  "multiply_complex_conjugate p q =
     Float2 (fp_add (fp_mul (f2_x p) (f2_x q)) (fp_mul (f2_y p) (f2_y q)))
            (fp_sub (fp_mul (f2_y p) (f2_x q)) (fp_mul (f2_x p) (f2_y q)))"

text \<open>
  Modelled from the spec: the macro adds the product \<open>p * conj(q)\<close> to \<open>val\<close>, field by field.
\<close>

definition OSKAR_MULTIPLY_ADD_COMPLEX_CONJUGATE :: "float2 \<Rightarrow> float2 \<Rightarrow> float2 \<Rightarrow> float2" where
  "OSKAR_MULTIPLY_ADD_COMPLEX_CONJUGATE val p q =
     Float2 (fp_add (f2_x val) (f2_x (multiply_complex_conjugate p q)))
            (fp_add (f2_y val) (f2_y (multiply_complex_conjugate p q)))"

subsection \<open>Single precision\<close>

text \<open>
  \<open>oskar_evaluate_average_scalar_cross_power_beam_omp_f\<close>. The normalisation
  \<^verbatim>\<open>norm = 2.0f / (num_stations * (num_stations - 1));\<close> divides by an \<open>int\<close> product
  converted to \<open>float\<close>.
\<close>

definition beam_norm_f :: "int \<Rightarrow> fp" where
  "beam_norm_f num_stations =
     fp_div (Finite 2) (fp_of_int (mul32 num_stations (sub32 num_stations 1)))"

text \<open>
  The value \<open>val1\<close> of source \<open>i\<close> after the loops over \<open>SP\<close> and \<open>SQ\<close>, before it is
  normalised; the subscripts \<open>SP * num_sources + i\<close> and \<open>SQ * num_sources + i\<close> are \<open>int\<close>
  expressions.
\<close>

definition cross_power_f :: "int \<Rightarrow> int \<Rightarrow> float2 array \<Rightarrow> int \<Rightarrow> float2" where
  "cross_power_f num_sources num_stations jones i =
     fold (\<lambda>SP val1.
             let p = jones (add32 (mul32 SP num_sources) i);
                 val2 = fold (\<lambda>SQ val2.
                                let q = jones (add32 (mul32 SQ num_sources) i)
                                in OSKAR_MULTIPLY_ADD_COMPLEX_CONJUGATE val2 p q)
                             [SP + 1 .. num_stations - 1]
                             (Float2 (Finite 0) (Finite 0))
             in Float2 (fp_add (f2_x val1) (f2_x val2)) (fp_add (f2_y val1) (f2_y val2)))
          [0 .. num_stations - 1]
          (Float2 (Finite 0) (Finite 0))"

text \<open>The loop over the sources, which stores the normalised value in \<open>beam[i]\<close>.\<close>

definition oskar_evaluate_average_scalar_cross_power_beam_omp_f ::
  "int \<Rightarrow> int \<Rightarrow> float2 array \<Rightarrow> float2 array \<Rightarrow> float2 array" where
  "oskar_evaluate_average_scalar_cross_power_beam_omp_f num_sources num_stations jones beam =
     (let norm = beam_norm_f num_stations
      in fold (\<lambda>i beam.
                 let val1 = cross_power_f num_sources num_stations jones i;
                     val1 = Float2 (fp_mul (f2_x val1) norm) (fp_mul (f2_y val1) norm)
                 in beam(i := val1))
              [0 .. num_sources - 1] beam)"

subsection \<open>Double precision\<close>

text \<open>\<open>oskar_evaluate_average_scalar_cross_power_beam_omp_d\<close>: the same statements.\<close>

definition beam_norm_d :: "int \<Rightarrow> fp" where
  "beam_norm_d num_stations =
     fp_div (Finite 2) (fp_of_int (mul32 num_stations (sub32 num_stations 1)))"

definition cross_power_d :: "int \<Rightarrow> int \<Rightarrow> float2 array \<Rightarrow> int \<Rightarrow> float2" where
  "cross_power_d num_sources num_stations jones i =
     fold (\<lambda>SP val1.
             let p = jones (add32 (mul32 SP num_sources) i);
                 val2 = fold (\<lambda>SQ val2.
                                let q = jones (add32 (mul32 SQ num_sources) i)
                                in OSKAR_MULTIPLY_ADD_COMPLEX_CONJUGATE val2 p q)
                             [SP + 1 .. num_stations - 1]
                             (Float2 (Finite 0) (Finite 0))
             in Float2 (fp_add (f2_x val1) (f2_x val2)) (fp_add (f2_y val1) (f2_y val2)))
          [0 .. num_stations - 1]
          (Float2 (Finite 0) (Finite 0))"

definition oskar_evaluate_average_scalar_cross_power_beam_omp_d ::
  "int \<Rightarrow> int \<Rightarrow> float2 array \<Rightarrow> float2 array \<Rightarrow> float2 array" where
  "oskar_evaluate_average_scalar_cross_power_beam_omp_d num_sources num_stations jones beam =
     (let norm = beam_norm_d num_stations
      in fold (\<lambda>i beam.
                 let val1 = cross_power_d num_sources num_stations jones i;
                     val1 = Float2 (fp_mul (f2_x val1) norm) (fp_mul (f2_y val1) norm)
                 in beam(i := val1))
              [0 .. num_sources - 1] beam)"

section \<open>Overriding the element position errors of a station\<close>

text \<open>
  Modelled from the spec: \<open>oskar_station_override_element_xy_position_errors\<close> works on the
  structures \<open>oskar_Station\<close> (\<open>private_station.h\<close>) and \<open>oskar_Mem\<close>, which are not part of the
  sources at hand. The model keeps what the function reads and writes: the memory
  location, the numeric type, \<open>num_elements\<close>, the array of child stations (absent for a
  station without children) and the four coordinate arrays \<open>x_signal\<close>, \<open>y_signal\<close>,
  \<open>x_weights\<close>, \<open>y_weights\<close>, each with its type and its data. A station hierarchy is a
  tree, as the specification describes it.
\<close>

record oskar_Mem =
  mem_type :: int
  mem_data :: "real array"

datatype oskar_Station =
  Station (station_location: int) (station_type: int) (num_elements: int)
    (child: "oskar_Station list option")
    (x_signal: oskar_Mem) (y_signal: oskar_Mem) (x_weights: oskar_Mem) (y_weights: oskar_Mem)

text \<open>
  The declarations the function takes from headers that are not at hand are parameters of
  the model: the constants \<open>OSKAR_LOCATION_CPU\<close>, \<open>OSKAR_DOUBLE\<close>, \<open>OSKAR_SINGLE\<close>,
  \<open>OSKAR_ERR_BAD_LOCATION\<close> and \<open>OSKAR_ERR_INVALID_ARGUMENT\<close>; the effect on \<open>*status\<close> of
  \<open>oskar_mem_double\<close> and \<open>oskar_mem_float\<close> (the pointer they return is the data of their
  argument); and \<open>oskar_random_gaussian\<close>, which returns one Gaussian random number,
  stores a second through its argument and advances the state \<open>'r\<close> of the generator.
\<close>

record 'r oskar_env =
  OSKAR_LOCATION_CPU :: int
  OSKAR_DOUBLE :: int
  OSKAR_SINGLE :: int
  OSKAR_ERR_BAD_LOCATION :: int
  OSKAR_ERR_INVALID_ARGUMENT :: int
  oskar_mem_double :: "oskar_Mem \<Rightarrow> int \<Rightarrow> int"
  oskar_mem_float :: "oskar_Mem \<Rightarrow> int \<Rightarrow> int"
  oskar_random_gaussian :: "'r \<Rightarrow> (real \<times> real) \<times> 'r"

text \<open>
  Modelled from the spec: \<open>oskar_set_invalid_argument\<close> is called for a null argument but
  not defined in the sources at hand. By the specification a null required pointer is an
  invalid argument, reported through the status code; a null \<open>status\<close> cannot carry it.
\<close>

definition oskar_set_invalid_argument :: "'r oskar_env \<Rightarrow> int option \<Rightarrow> int option" where
  "oskar_set_invalid_argument E status =
     (case status of None \<Rightarrow> None | Some _ \<Rightarrow> Some (OSKAR_ERR_INVALID_ARGUMENT E))"

text \<open>
  Modelled from the spec: the accessors \<open>oskar_station_location\<close>, \<open>oskar_station_has_child\<close>
  and \<open>oskar_station_type\<close> (\<open>oskar_station.h\<close>, not at hand) read the fields of the
  structure; a station has children when its child array is present.
\<close>

definition oskar_station_location :: "oskar_Station \<Rightarrow> int" where
  "oskar_station_location s = station_location s"

definition oskar_station_has_child :: "oskar_Station \<Rightarrow> bool" where
  "oskar_station_has_child s \<longleftrightarrow> child s \<noteq> None"

definition oskar_station_type :: "oskar_Station \<Rightarrow> int" where
  "oskar_station_type s = station_type s"

text \<open>
  The loop over the elements of a leaf station:
  \<^verbatim>\<open>delta_x = oskar_random_gaussian(&delta_y); delta_x *= position_error_xy_m;\<close>
  \<^verbatim>\<open>delta_y *= position_error_xy_m; xs[i] = xw[i] + delta_x; ys[i] = yw[i] + delta_y;\<close>
\<close>

definition override_elements ::
  "'r oskar_env \<Rightarrow> real \<Rightarrow> int \<Rightarrow> real array \<Rightarrow> real array \<Rightarrow>
   real array \<times> real array \<times> 'r \<Rightarrow> real array \<times> real array \<times> 'r" where
  "override_elements E position_error_xy_m n xw yw =
     fold (\<lambda>i (xs, ys, rng).
             let ((delta_x, delta_y), rng) = oskar_random_gaussian E rng;
                 delta_x = delta_x * position_error_xy_m;
                 delta_y = delta_y * position_error_xy_m
             in (xs(i := xw i + delta_x), ys(i := yw i + delta_y), rng))
          [0 .. n - 1]"

text \<open>
  The \<open>else\<close> branch of the function, for a station without children: the element data
  is overridden for the types \<open>OSKAR_DOUBLE\<close> and \<open>OSKAR_SINGLE\<close>, through the pointers
  obtained from \<open>oskar_mem_double\<close> and \<open>oskar_mem_float\<close>. There is no branch for any other
  type.
\<close>

definition override_leaf ::
  "'r oskar_env \<Rightarrow> real \<Rightarrow> oskar_Station \<Rightarrow> int \<times> 'r \<Rightarrow> oskar_Station \<times> int \<times> 'r" where
  "override_leaf E position_error_xy_m s = (\<lambda>(status, rng).
     let type = oskar_station_type s in
     if type = OSKAR_DOUBLE E then
       let status = oskar_mem_double E (x_signal s) status;
           status = oskar_mem_double E (y_signal s) status;
           status = oskar_mem_double E (x_weights s) status;
           status = oskar_mem_double E (y_weights s) status;
           (xs, ys, rng) =
             override_elements E position_error_xy_m (num_elements s)
               (mem_data (x_weights s)) (mem_data (y_weights s))
               (mem_data (x_signal s), mem_data (y_signal s), rng)
       in (Station (station_location s) (station_type s) (num_elements s) (child s)
             ((x_signal s)\<lparr>mem_data := xs\<rparr>) ((y_signal s)\<lparr>mem_data := ys\<rparr>)
             (x_weights s) (y_weights s),
           status, rng)
     else if type = OSKAR_SINGLE E then
       let status = oskar_mem_float E (x_signal s) status;
           status = oskar_mem_float E (y_signal s) status;
           status = oskar_mem_float E (x_weights s) status;
           status = oskar_mem_float E (y_weights s) status;
           (xs, ys, rng) =
             override_elements E position_error_xy_m (num_elements s)
               (mem_data (x_weights s)) (mem_data (y_weights s))
               (mem_data (x_signal s), mem_data (y_signal s), rng)
       in (Station (station_location s) (station_type s) (num_elements s) (child s)
             ((x_signal s)\<lparr>mem_data := xs\<rparr>) ((y_signal s)\<lparr>mem_data := ys\<rparr>)
             (x_weights s) (y_weights s),
           status, rng)
     else (s, status, rng))"

text \<open>
  The function from its test of \<open>*status\<close> (\<open>Check if safe to proceed\<close>) on, for a station
  and a status that are not null, and its loop \<^verbatim>\<open>for (i = 0; i < s->num_elements; ++i)\<close> over the children: the
  first argument of \<open>override_children\<close> counts the iterations that remain, the list holds
  the children from \<open>oskar_station_child(s, i)\<close> on. Every recursive call receives a child
  of the array and the caller's \<open>status\<close>, neither of which is null. The test
  \<open>oskar_station_has_child(s)\<close> is the case distinction on the child array.
\<close>

fun override_station ::
  "'r oskar_env \<Rightarrow> real \<Rightarrow> oskar_Station \<Rightarrow> int \<times> 'r \<Rightarrow> oskar_Station \<times> int \<times> 'r"
and override_children ::
  "'r oskar_env \<Rightarrow> real \<Rightarrow> nat \<Rightarrow> oskar_Station list \<Rightarrow> int \<times> 'r \<Rightarrow>
   oskar_Station list \<times> int \<times> 'r"
where
  "override_station E position_error_xy_m (Station loc ty n ch xs ys xw yw) (status, rng) =
     (if status \<noteq> 0 then (Station loc ty n ch xs ys xw yw, status, rng)
      else if oskar_station_location (Station loc ty n ch xs ys xw yw) \<noteq> OSKAR_LOCATION_CPU E
      then (Station loc ty n ch xs ys xw yw, OSKAR_ERR_BAD_LOCATION E, rng)
      else (case ch of
              Some cs \<Rightarrow>
                (case override_children E position_error_xy_m (nat n) cs (status, rng) of
                   (cs', status', rng') \<Rightarrow> (Station loc ty n (Some cs') xs ys xw yw, status', rng'))
            | None \<Rightarrow>
                override_leaf E position_error_xy_m (Station loc ty n ch xs ys xw yw)
                  (status, rng)))"
| "override_children E position_error_xy_m 0 cs st = (cs, st)"
| "override_children E position_error_xy_m (Suc k) [] st = ([], st)"
| "override_children E position_error_xy_m (Suc k) (c # cs) st =
     (case override_station E position_error_xy_m c st of
        (c', st') \<Rightarrow>
          (case override_children E position_error_xy_m k cs st' of
             (cs', st'') \<Rightarrow> (c' # cs', st'')))"

text \<open>
  The function as it is called: \<open>s\<close> and \<open>status\<close> may be null (\<open>None\<close>), and the result
  is the station, the status and the state of the random number generator after the call.
\<close>

definition oskar_station_override_element_xy_position_errors ::
  "'r oskar_env \<Rightarrow> oskar_Station option \<Rightarrow> real \<Rightarrow> int option \<Rightarrow> 'r \<Rightarrow>
   oskar_Station option \<times> int option \<times> 'r" where
  "oskar_station_override_element_xy_position_errors E s position_error_xy_m status rng =
     (case (s, status) of
        (Some st, Some e) \<Rightarrow>
          (case override_station E position_error_xy_m st (e, rng) of
             (st', e', rng') \<Rightarrow> (Some st', Some e', rng'))
      | _ \<Rightarrow> (s, oskar_set_invalid_argument E status, rng))"

section \<open>Concrete inputs\<close>

text \<open>
  Inputs on which the definitions are evaluated. The brightness matrix of Stokes parameters
  \<open>(I, Q, U, V)\<close> is taken in its usual form.
\<close>

definition stokes_brightness :: "real \<Rightarrow> real \<Rightarrow> real \<Rightarrow> real \<Rightarrow> float4c" where
  "stokes_brightness I Q U V =
     Float4c (Complex (I + Q) 0) (Complex U V) (Complex U (- V)) (Complex (I - Q) 0)"

definition identity_jones :: "float4c array" where
  "identity_jones k = Float4c 1 0 0 1"

definition zeros :: "real array" where
  "zeros i = 0"

definition ones :: "real array" where
  "ones i = 1"

definition station_line :: "real array" where
  "station_line s = of_int s"

definition empty_vis :: "float4c array" where
  "empty_vis k = 0"

text \<open>The matrix with \<open>x\<close> on the diagonal: \<open>x\<close> times the unit matrix.\<close>

definition diag4c :: "real \<Rightarrow> float4c" where
  "diag4c x = Float4c (Complex x 0) 0 0 (Complex x 0)"

text \<open>
  Stokes \<open>I\<close> of a pair of sources and of its repetitions: \<open>1\<close> and \<open>0.75 * 2\<^sup>-\<^sup>5\<^sup>2\<close>, both
  values of the format \<open>double\<close>.
\<close>

definition alternating_I :: "real array" where
  "alternating_I i = (if even i then 1 else 3 / 2 ^ 54)"

text \<open>Stokes \<open>I\<close> of three sources: \<open>1\<close>, \<open>3 * 2\<^sup>-\<^sup>2\<^sup>5\<close>, \<open>2\<^sup>-\<^sup>2\<^sup>4\<close>, values of the format \<open>float\<close>.\<close>

definition three_I :: "real array" where
  "three_I i = (if i = 0 then 1 else if i = 1 then 3 / 2 ^ 25 else 1 / 2 ^ 24)"

text \<open>Two stations \<open>2\<^sup>2\<^sup>2\<close> wavelengths apart in \<open>u\<close>.\<close>

definition far_stations :: "real array" where
  "far_stations s = (if s = 0 then 0 else 4194304)"

definition unit_jones :: "float2 array" where
  "unit_jones k = Float2 (Finite 1) (Finite 0)"

definition sevens :: "float2 array" where
  "sevens k = Float2 (Finite 7) (Finite 7)"

definition test_jones2 :: "float2 array" where
  "test_jones2 k = (if k = 0 then Float2 (Finite 1) (Finite 2) else Float2 (Finite 3) (Finite 4))"

definition test_env :: "nat oskar_env" where
  "test_env = \<lparr> OSKAR_LOCATION_CPU = 0, OSKAR_DOUBLE = 8, OSKAR_SINGLE = 4,
                OSKAR_ERR_BAD_LOCATION = - 8, OSKAR_ERR_INVALID_ARGUMENT = - 3,
                oskar_mem_double = (\<lambda>m status. status),
                oskar_mem_float = (\<lambda>m status. status),
                oskar_random_gaussian = (\<lambda>r. ((1, - 1), Suc r)) \<rparr>"

definition test_mem :: "int \<Rightarrow> oskar_Mem" where
  "test_mem t = \<lparr> mem_type = t, mem_data = (\<lambda>i. 0) \<rparr>"

definition test_leaf :: "int \<Rightarrow> int \<Rightarrow> oskar_Station" where
  "test_leaf loc ty =
     Station loc ty 2 None (test_mem ty) (test_mem ty) (test_mem ty) (test_mem ty)"


section \<open>Properties of the baseline index\<close>

lemma int32_id: "- 2147483648 \<le> v \<Longrightarrow> v < 2147483648 \<Longrightarrow> int32 v = v"
  by (simp add: int32_def signed_take_bit_int_eq_self)

lemma even_pred_mult: "even ((q - 1) * q)" for q :: int
  by simp

lemma twice_half_pred_mult: "2 * ((q - 1) * q div 2) = (q - 1) * q" for q :: int
  using even_pred_mult [of q] by (metis dvd_mult_div_cancel)

lemma pred_mult_nonneg: "0 \<le> (q - 1) * q" for q :: int
proof (cases "1 \<le> q")
  case True then show ?thesis by simp
next
  case False
  then have "q - 1 \<le> 0" "q \<le> 0" by simp_all
  then show ?thesis by (rule mult_nonpos_nonpos)
qed

lemma sdiv_two_nonneg: "0 \<le> k \<Longrightarrow> k sdiv 2 = k div 2" for k :: int
  by (simp add: signed_divide_int_def sgn_if)

lemma prod_bound:
  fixes x y :: int
  assumes "0 \<le> x" "x \<le> X" "0 \<le> y" "y \<le> Y"
  shows "0 \<le> x * y \<and> x * y \<le> X * Y"
  using assms by (simp add: mult_mono)

lemma spec_block_start: "baseline_index_spec n q p = block_start n q + (p - q - 1)"
  by (simp add: baseline_index_spec_def block_start_def)

lemma twice_block_start: "2 * block_start n q = q * (2 * n - 1 - q)"
proof -
  have "2 * block_start n q = 2 * (q * (n - 1)) - 2 * ((q - 1) * q div 2)"
    by (simp add: block_start_def)
  also have "\<dots> = 2 * (q * (n - 1)) - (q - 1) * q"
    by (simp only: twice_half_pred_mult)
  also have "\<dots> = q * (2 * n - 1 - q)"
    by (simp add: algebra_simps)
  finally show ?thesis .
qed

lemma block_start_next: "block_start n (q + 1) = block_start n q + (n - 1 - q)"
proof -
  have "2 * block_start n (q + 1) = 2 * (block_start n q + (n - 1 - q))"
    by (simp add: twice_block_start algebra_simps)
  then show ?thesis by simp
qed

lemma block_start_zero: "block_start n 0 = 0"
  by (simp add: block_start_def)

lemma block_start_last: "block_start n (n - 1) = total_baselines n"
proof -
  have "2 * block_start n (n - 1) = n * (n - 1)"
    by (simp add: twice_block_start algebra_simps)
  moreover have "even (n * (n - 1))" by simp
  ultimately show ?thesis
    unfolding total_baselines_def by (metis nonzero_mult_div_cancel_left zero_neq_numeral)
qed

lemma block_start_mono:
  assumes "q \<le> q'" "q' \<le> n - 1"
  shows "block_start n q \<le> block_start n q'"
proof -
  have "0 \<le> (q' - q) * (2 * n - 1 - q - q')"
    using assms by (intro mult_nonneg_nonneg) simp_all
  also have "\<dots> = 2 * block_start n q' - 2 * block_start n q"
    by (simp add: twice_block_start algebra_simps)
  finally show ?thesis by simp
qed

lemma spec_in_block:
  assumes "q < p" "p < n"
  shows "block_start n q \<le> baseline_index_spec n q p"
    and "baseline_index_spec n q p < block_start n (q + 1)"
  using assms by (simp_all add: spec_block_start block_start_next)

lemma spec_lower_pair_less:
  assumes "q < p" "p < n" "q' < p'" "p' < n" "q < q'"
  shows "baseline_index_spec n q p < baseline_index_spec n q' p'"
proof -
  have "baseline_index_spec n q p < block_start n (q + 1)"
    using assms by (intro spec_in_block) simp_all
  also have "\<dots> \<le> block_start n q'"
    using assms by (intro block_start_mono) simp_all
  also have "\<dots> \<le> baseline_index_spec n q' p'"
    using assms by (intro spec_in_block) simp_all
  finally show ?thesis .
qed

lemma spec_inj:
  assumes "q < p" "p < n" "q' < p'" "p' < n"
    and eq: "baseline_index_spec n q p = baseline_index_spec n q' p'"
  shows "q = q' \<and> p = p'"
proof -
  have "\<not> q < q'"
    using spec_lower_pair_less [of q p n q' p'] assms by auto
  moreover have "\<not> q' < q"
    using spec_lower_pair_less [of q' p' n q p] assms by auto
  ultimately have "q = q'" by simp
  with eq show ?thesis by (simp add: spec_block_start)
qed

lemma spec_range:
  assumes "0 \<le> q" "q < p" "p < n"
  shows "0 \<le> baseline_index_spec n q p \<and> baseline_index_spec n q p < total_baselines n"
proof -
  have "block_start n 0 \<le> block_start n q"
    using assms by (intro block_start_mono) simp_all
  also have "\<dots> \<le> baseline_index_spec n q p"
    using assms by (intro spec_in_block) simp_all
  finally have lo: "0 \<le> baseline_index_spec n q p"
    by (simp add: block_start_zero)
  have "baseline_index_spec n q p < block_start n (q + 1)"
    using assms by (intro spec_in_block) simp_all
  also have "\<dots> \<le> block_start n (n - 1)"
    using assms by (intro block_start_mono) simp_all
  finally show ?thesis using lo by (simp add: block_start_last)
qed

lemma find_block:
  assumes "0 \<le> k"
  shows "k < block_start n (int m) \<Longrightarrow>
         \<exists>q. 0 \<le> q \<and> q < int m \<and> block_start n q \<le> k \<and> k < block_start n (q + 1)"
proof (induction m)
  case 0
  with assms show ?case by (simp add: block_start_zero)
next
  case (Suc m)
  show ?case
  proof (cases "k < block_start n (int m)")
    case True
    from Suc.IH [OF True] obtain q where
      "0 \<le> q" "q < int m" "block_start n q \<le> k" "k < block_start n (q + 1)" by blast
    then show ?thesis by (intro exI [of _ q]) simp
  next
    case False
    with Suc.prems show ?thesis
      by (intro exI [of _ "int m"]) (simp add: add.commute)
  qed
qed

lemma spec_surj:
  assumes "0 \<le> k" "k < total_baselines n" "2 \<le> n"
  shows "\<exists>q p. 0 \<le> q \<and> q < p \<and> p < n \<and> baseline_index_spec n q p = k"
proof -
  have "k < block_start n (int (nat (n - 1)))"
    using assms by (simp add: block_start_last)
  from find_block [OF assms(1) this] obtain q where
    q: "0 \<le> q" "q < n - 1" "block_start n q \<le> k" "k < block_start n (q + 1)"
    using assms by auto
  define p where "p = q + 1 + (k - block_start n q)"
  have "q < p" "p < n" "baseline_index_spec n q p = k"
    using q by (simp_all add: p_def spec_block_start block_start_next)
  with q show ?thesis by blast
qed

lemma spec_bij:
  assumes "2 \<le> n"
  shows "bij_betw (\<lambda>(q, p). baseline_index_spec n q p) (station_pairs n)
           {0 ..< total_baselines n}"
  unfolding bij_betw_def
proof
  show "inj_on (\<lambda>(q, p). baseline_index_spec n q p) (station_pairs n)"
    by (rule inj_onI) (auto simp: station_pairs_def dest: spec_inj)
  show "(\<lambda>(q, p). baseline_index_spec n q p) ` station_pairs n = {0 ..< total_baselines n}"
  proof (rule set_eqI)
    fix k
    show "k \<in> (\<lambda>(q, p). baseline_index_spec n q p) ` station_pairs n
            \<longleftrightarrow> k \<in> {0 ..< total_baselines n}"
    proof
      assume "k \<in> (\<lambda>(q, p). baseline_index_spec n q p) ` station_pairs n"
      then show "k \<in> {0 ..< total_baselines n}"
        using spec_range by (auto simp: station_pairs_def)
    next
      assume "k \<in> {0 ..< total_baselines n}"
      then obtain q p where "0 \<le> q" "q < p" "p < n" "baseline_index_spec n q p = k"
        using spec_surj [of k n] assms by auto
      then have "(q, p) \<in> station_pairs n" "(\<lambda>(q, p). baseline_index_spec n q p) (q, p) = k"
        by (simp_all add: station_pairs_def)
      then show "k \<in> (\<lambda>(q, p). baseline_index_spec n q p) ` station_pairs n"
        by blast
    qed
  qed
qed

lemma spec_block_image:
  "baseline_index_spec n q ` {q + 1 .. n - 1} = {block_start n q ..< block_start n q + (n - 1 - q)}"
proof (rule set_eqI)
  fix k
  show "k \<in> baseline_index_spec n q ` {q + 1 .. n - 1}
          \<longleftrightarrow> k \<in> {block_start n q ..< block_start n q + (n - 1 - q)}"
  proof
    assume "k \<in> baseline_index_spec n q ` {q + 1 .. n - 1}"
    then show "k \<in> {block_start n q ..< block_start n q + (n - 1 - q)}"
      by (auto simp: spec_block_start)
  next
    assume k: "k \<in> {block_start n q ..< block_start n q + (n - 1 - q)}"
    define p where "p = q + 1 + (k - block_start n q)"
    have "p \<in> {q + 1 .. n - 1}" "baseline_index_spec n q p = k"
      using k by (simp_all add: p_def spec_block_start)
    then show "k \<in> baseline_index_spec n q ` {q + 1 .. n - 1}" by blast
  qed
qed

text \<open>
  Wrapping is compatible with addition and subtraction, so an intermediate value that
  wraps does no harm as long as the final value fits.
\<close>

lemma int32_add_left: "int32 (int32 a + b) = int32 (a + b)"
proof -
  have "int32 (int32 a + b) =
        signed_take_bit 31 (signed_take_bit 31 (signed_take_bit 31 a) + signed_take_bit 31 b)"
    by (simp only: int32_def signed_take_bit_add)
  also have "\<dots> = int32 (a + b)"
    by (simp add: int32_def signed_take_bit_add)
  finally show ?thesis .
qed

lemma int32_diff_left: "int32 (int32 a - b) = int32 (a - b)"
proof -
  have "int32 (int32 a - b) =
        signed_take_bit 31 (signed_take_bit 31 (signed_take_bit 31 a) - signed_take_bit 31 b)"
    by (simp only: int32_def signed_take_bit_diff)
  also have "\<dots> = int32 (a - b)"
    by (simp add: int32_def signed_take_bit_diff)
  finally show ?thesis .
qed

text \<open>
  Up to 46343 stations the code computes the index of the specification. The product
  \<open>(station_q - 1) * station_q\<close>, which is halved, fits for \<open>station_q \<le> 46341\<close>; the
  product \<open>station_q * (num_stations - 1)\<close> may wrap (it does for the last baseline of 46343
  stations), but the index itself fits.
\<close>

lemma baseline_index_agrees:
  assumes n: "2 \<le> n" "n \<le> 46343" and q: "0 \<le> q" "q < p" "p < n"
  shows "baseline_index n q p = baseline_index_spec n q p"
proof -
  have s1: "sub32 n 1 = n - 1"
    unfolding sub32_def using n by (intro int32_id) simp_all
  have s2: "sub32 q 1 = q - 1"
    unfolding sub32_def using n q by (intro int32_id) simp_all
  have h0: "0 \<le> (q - 1) * q" by (rule pred_mult_nonneg)
  have h1: "(q - 1) * q \<le> 2147441940"
  proof (cases "q = 0")
    case True
    then show ?thesis by simp
  next
    case False
    with n q have "0 \<le> (q - 1) * q \<and> (q - 1) * q \<le> 46340 * 46341"
      by (intro prod_bound) simp_all
    then show ?thesis by simp
  qed
  have m2: "mul32 (q - 1) q = (q - 1) * q"
    unfolding mul32_def using h0 h1 by (intro int32_id) simp_all
  have hd: "0 \<le> (q - 1) * q div 2" "(q - 1) * q div 2 \<le> (q - 1) * q"
    using h0 by simp_all
  have d: "div32 ((q - 1) * q) 2 = (q - 1) * q div 2"
    unfolding div32_def sdiv_two_nonneg [OF h0] using hd h1 by (intro int32_id) simp_all
  have "baseline_index n q p =
        int32 (int32 (int32 (int32 (int32 (q * (n - 1)) - (q - 1) * q div 2) + p) - q) - 1)"
    by (simp add: baseline_index_def s1 s2 m2 d) (simp add: sub32_def add32_def mul32_def)
  also have "\<dots> = int32 (q * (n - 1) - (q - 1) * q div 2 + p - q - 1)"
    by (simp only: int32_diff_left int32_add_left)
  also have "\<dots> = int32 (baseline_index_spec n q p)"
    by (rule arg_cong [where f = int32]) (simp add: baseline_index_spec_def)
  also have "\<dots> = baseline_index_spec n q p"
  proof (rule int32_id)
    have r: "0 \<le> baseline_index_spec n q p" "baseline_index_spec n q p < total_baselines n"
      using spec_range [of q p n] q by simp_all
    have "0 \<le> n * (n - 1) \<and> n * (n - 1) \<le> 46343 * 46342"
      using n by (intro prod_bound) simp_all
    then have "n * (n - 1) div 2 \<le> 46343 * 46342 div 2"
      by (intro zdiv_mono1) simp_all
    then have "total_baselines n \<le> 1073813653"
      by (simp add: total_baselines_def)
    with r show "- 2147483648 \<le> baseline_index_spec n q p"
      and "baseline_index_spec n q p < 2147483648"
      by simp_all
  qed
  finally show ?thesis .
qed

lemma last_baseline_wraps:
  "46341 * (46343 - 1) > (2147483647 :: int)
   \<and> mul32 46341 (sub32 46343 1) \<noteq> 46341 * (46343 - 1)
   \<and> baseline_index 46343 46341 46342 = baseline_index_spec 46343 46341 46342"
  by (simp add: baseline_index_def baseline_index_spec_def
      sub32_def add32_def mul32_def div32_def int32_def signed_divide_int_def)

lemma block_eq_spec:
  assumes "2 \<le> n" "n \<le> 46343" "0 \<le> q"
  shows "baseline_block n q = {block_start n q ..< block_start n q + (n - 1 - q)}"
proof -
  have "baseline_index n q ` {q + 1 .. n - 1} = baseline_index_spec n q ` {q + 1 .. n - 1}"
    using assms by (intro image_cong refl baseline_index_agrees) simp_all
  then show ?thesis by (simp add: baseline_block_def spec_block_image)
qed

lemma blocks_disjoint:
  assumes "2 \<le> n" "n \<le> 46343" "0 \<le> q" "q < q'" "q' < n"
  shows "baseline_block n q \<inter> baseline_block n q' = {}"
proof -
  have "block_start n (q + 1) \<le> block_start n q'"
    using assms by (intro block_start_mono) simp_all
  then have "block_start n q + (n - 1 - q) \<le> block_start n q'"
    by (simp add: block_start_next)
  moreover have "baseline_block n q = {block_start n q ..< block_start n q + (n - 1 - q)}"
    "baseline_block n q' = {block_start n q' ..< block_start n q' + (n - 1 - q')}"
    using assms by (simp_all add: block_eq_spec)
  ultimately show ?thesis by auto
qed

lemma blocks_cover:
  assumes "2 \<le> n" "n \<le> 46343"
  shows "(\<Union>q \<in> {0 .. n - 1}. baseline_block n q) = {0 ..< total_baselines n}"
proof (rule set_eqI)
  fix k
  show "k \<in> (\<Union>q \<in> {0 .. n - 1}. baseline_block n q) \<longleftrightarrow> k \<in> {0 ..< total_baselines n}"
  proof
    assume "k \<in> (\<Union>q \<in> {0 .. n - 1}. baseline_block n q)"
    then obtain q where q: "0 \<le> q" "q \<le> n - 1" and "k \<in> baseline_block n q" by auto
    then have k: "block_start n q \<le> k" "k < block_start n q + (n - 1 - q)"
      using assms by (simp_all add: block_eq_spec)
    then have "q + 1 \<le> n - 1" by simp
    then have "block_start n (q + 1) \<le> block_start n (n - 1)"
      by (intro block_start_mono) simp_all
    moreover have "block_start n 0 \<le> block_start n q"
      using q by (intro block_start_mono) simp_all
    ultimately show "k \<in> {0 ..< total_baselines n}"
      using k by (simp add: block_start_zero block_start_last block_start_next)
  next
    assume k: "k \<in> {0 ..< total_baselines n}"
    then have "0 \<le> k" "k < block_start n (int (nat (n - 1)))"
      using assms by (simp_all add: block_start_last)
    from find_block [OF this] obtain q where
      q: "0 \<le> q" "q < n - 1" "block_start n q \<le> k" "k < block_start n (q + 1)"
      using assms by auto
    then have "k \<in> baseline_block n q"
      using assms by (simp add: block_eq_spec block_start_next)
    with q show "k \<in> (\<Union>q \<in> {0 .. n - 1}. baseline_block n q)" by auto
  qed
qed

text \<open>
  For every \<open>num_stations\<close> from 2 to 46343 the index computed by the correlator is a
  bijection from the station pairs \<open>0 \<le> q < p < num_stations\<close> onto
  \<open>[0, num_stations * (num_stations - 1) / 2)\<close>; for each fixed \<open>q\<close> the indices of
  \<open>p = q + 1 .. num_stations - 1\<close> are the contiguous block of \<open>num_stations - 1 - q\<close> slots
  that starts at \<open>block_start num_stations q\<close>; the blocks of distinct \<open>q\<close> are disjoint and
  their union is the whole range. The formula of the specification, over the mathematical
  integers, has these properties for every \<open>num_stations \<ge> 2\<close> (\<open>spec_bij\<close>).
\<close>

lemma baseline_index_bijection_up_to_46343:
  assumes "2 \<le> num_stations" "num_stations \<le> 46343"
  shows "bij_betw (\<lambda>(q, p). baseline_index num_stations q p) (station_pairs num_stations)
           {0 ..< total_baselines num_stations}
       \<and> (\<forall>q. 0 \<le> q \<and> q < num_stations \<longrightarrow>
             baseline_block num_stations q =
               {block_start num_stations q ..<
                  block_start num_stations q + (num_stations - 1 - q)})
       \<and> (\<forall>q q'. 0 \<le> q \<and> q < q' \<and> q' < num_stations \<longrightarrow>
             baseline_block num_stations q \<inter> baseline_block num_stations q' = {})
       \<and> (\<Union>q \<in> {0 .. num_stations - 1}. baseline_block num_stations q) =
             {0 ..< total_baselines num_stations}"
proof -
  have "\<And>x. x \<in> station_pairs num_stations \<Longrightarrow>
          (\<lambda>(q, p). baseline_index num_stations q p) x =
          (\<lambda>(q, p). baseline_index_spec num_stations q p) x"
    using assms by (auto simp: station_pairs_def baseline_index_agrees)
  then have "bij_betw (\<lambda>(q, p). baseline_index num_stations q p) (station_pairs num_stations)
               {0 ..< total_baselines num_stations}"
    by (rule iffD2 [OF bij_betw_cong spec_bij [OF assms(1)]])
  moreover have "\<forall>q. 0 \<le> q \<and> q < num_stations \<longrightarrow>
             baseline_block num_stations q =
               {block_start num_stations q ..<
                  block_start num_stations q + (num_stations - 1 - q)}"
    using assms by (simp add: block_eq_spec)
  moreover have "\<forall>q q'. 0 \<le> q \<and> q < q' \<and> q' < num_stations \<longrightarrow>
             baseline_block num_stations q \<inter> baseline_block num_stations q' = {}"
    using assms by (simp add: blocks_disjoint)
  ultimately show ?thesis
    using blocks_cover [OF assms] by simp
qed

lemma baseline_index_bijection_four_stations:
  "bij_betw (\<lambda>(q, p). baseline_index 4 q p) (station_pairs 4) {0 ..< total_baselines 4}
   \<and> (\<Union>q \<in> {0 .. 4 - 1}. baseline_block 4 q) = {0 ..< total_baselines 4}"
proof -
  have lo: "(2::int) \<le> 4" and hi: "(4::int) \<le> 46343" by simp_all
  note all = baseline_index_bijection_up_to_46343 [OF lo hi]
  from all have "bij_betw (\<lambda>(q, p). baseline_index 4 q p) (station_pairs 4)
      {0 ..< total_baselines 4}"
    by (rule conjunct1)
  moreover from all have "(\<Union>q \<in> {0 .. 4 - 1}. baseline_block 4 q) = {0 ..< total_baselines 4}"
    by (elim conjE)
  ultimately show ?thesis by (intro conjI)
qed

text \<open>
  Claim C1. The claimed bijection holds of the formula of the specification for every
  \<open>num_stations \<ge> 2\<close> and of the code up to 46343 stations, and the code departs from it at
  46344 stations. In the index of the last baseline \<open>(station_q, station_p) = (46342, 46343)\<close>
  the product \<open>(station_q - 1) * station_q = 46341 * 46342 = 2147534622\<close> exceeds
  \<open>INT_MAX = 2147483647\<close>; the wrapped product is negative, halving it loses \<open>2\<^sup>3\<^sup>1\<close>, and the
  code computes the index \<open>-1073623653\<close>, in front of the visibility buffer. The index of
  the specification for this baseline is \<open>1073859995\<close>, the last of the
  \<open>1073859996\<close> entries, and fits an \<open>int\<close>.
\<close>

theorem baseline_index_overflow_at_46344:
  "(46342, 46343) \<in> station_pairs 46344
   \<and> (46342 - 1) * 46342 = (2147534622 :: int)
   \<and> (2147534622 :: int) > 2147483647
   \<and> mul32 (sub32 46342 1) 46342 = - 2147432674
   \<and> total_baselines 46344 = 1073859996
   \<and> baseline_index_spec 46344 46342 46343 = 1073859995
   \<and> baseline_index 46344 46342 46343 = - 1073623653
   \<and> baseline_index 46344 46342 46343 \<notin> {0 ..< total_baselines 46344}"
  by (simp add: station_pairs_def total_baselines_def baseline_index_def
      baseline_index_spec_def sub32_def add32_def mul32_def div32_def int32_def
      signed_divide_int_def)

section \<open>Properties of the rounding\<close>

lemma round4c_exact: "round4c exact v = v"
  by (simp add: round4c_def round_c_def exact_def)

lemma round_to_multiple_eval:
  assumes "0 < u" "of_int k \<le> x / u" "x / u < of_int k + 1"
  shows "round_to_multiple u x =
     u * of_int (if x / u - of_int k < 1 / 2 then k
                 else if 1 / 2 < x / u - of_int k then k + 1
                 else if even k then k else k + 1)"
proof -
  have "\<lfloor>x / u\<rfloor> = k" using assms(2,3) by (simp add: floor_unique)
  then show ?thesis by (simp add: round_to_multiple_def Let_def)
qed

lemma round_nearest_even_binade:
  assumes "2 powr of_int e \<le> \<bar>x\<bar>" "\<bar>x\<bar> < 2 powr (of_int e + 1)"
  shows "round_nearest_even p x = round_to_multiple (2 powr (of_int e - of_nat p + 1)) x"
proof -
  have pos: "0 < \<bar>x\<bar>" using assms(1) by (smt (verit) powr_gt_zero)
  have "of_int e \<le> log 2 \<bar>x\<bar>" using assms(1) pos by (simp add: le_log_iff)
  moreover have "log 2 \<bar>x\<bar> < of_int e + 1" using assms(2) pos by (simp add: log_less_iff)
  ultimately have "\<lfloor>log 2 \<bar>x\<bar>\<rfloor> = e" by (simp add: floor_unique)
  with pos show ?thesis by (simp add: round_nearest_even_def)
qed

lemma binary64_zero: "binary64 0 = 0"
  by (simp add: binary64_def round_nearest_even_def)

lemma binary32_zero: "binary32 0 = 0"
  by (simp add: binary32_def round_nearest_even_def)

text \<open>The spacing of \<open>double\<close> in \<open>[1, 2)\<close> is \<open>2\<^sup>-\<^sup>5\<^sup>2\<close> and in \<open>[2, 4)\<close> it is \<open>2\<^sup>-\<^sup>5\<^sup>1\<close>.\<close>

lemma binary64_1_2:
  assumes "1 \<le> x" "x < 2"
  shows "binary64 x = round_to_multiple (1 / 2 ^ 52) x"
proof -
  have "round_nearest_even 53 x = round_to_multiple (2 powr (of_int 0 - of_nat 53 + 1)) x"
    using assms by (intro round_nearest_even_binade) simp_all
  also have "2 powr (of_int 0 - of_nat 53 + 1) = (1 / 2 ^ 52 :: real)"
    by (simp add: powr_neg_numeral)
  finally show ?thesis by (simp add: binary64_def)
qed

lemma binary64_2_4:
  assumes "2 \<le> x" "x < 4"
  shows "binary64 x = round_to_multiple (1 / 2 ^ 51) x"
proof -
  have "round_nearest_even 53 x = round_to_multiple (2 powr (of_int 1 - of_nat 53 + 1)) x"
    using assms by (intro round_nearest_even_binade) simp_all
  also have "2 powr (of_int 1 - of_nat 53 + 1) = (1 / 2 ^ 51 :: real)"
    by (simp add: powr_neg_numeral)
  finally show ?thesis by (simp add: binary64_def)
qed

text \<open>
  The spacing of \<open>float\<close> in \<open>[2\<^sup>e, 2\<^sup>e\<^sup>+\<^sup>1)\<close> is \<open>2\<^sup>e\<^sup>-\<^sup>2\<^sup>3\<close>: the binades of the values met below.
\<close>

lemma binary32_1_2:
  assumes "1 \<le> x" "x < 2"
  shows "binary32 x = round_to_multiple (1 / 2 ^ 23) x"
proof -
  have "round_nearest_even 24 x = round_to_multiple (2 powr (of_int 0 - of_nat 24 + 1)) x"
    using assms by (intro round_nearest_even_binade) simp_all
  also have "2 powr (of_int 0 - of_nat 24 + 1) = (1 / 2 ^ 23 :: real)"
    by (simp add: powr_neg_numeral)
  finally show ?thesis by (simp add: binary32_def)
qed

lemma binary32_2_4:
  assumes "2 \<le> x" "x < 4"
  shows "binary32 x = round_to_multiple (1 / 2 ^ 22) x"
proof -
  have "round_nearest_even 24 x = round_to_multiple (2 powr (of_int 1 - of_nat 24 + 1)) x"
    using assms by (intro round_nearest_even_binade) simp_all
  also have "2 powr (of_int 1 - of_nat 24 + 1) = (1 / 2 ^ 22 :: real)"
    by (simp add: powr_neg_numeral)
  finally show ?thesis by (simp add: binary32_def)
qed

lemma binary32_small:
  assumes "1 / 2 ^ n \<le> \<bar>x\<bar>" "\<bar>x\<bar> < 2 / 2 ^ n"
  shows "binary32 x = round_to_multiple (1 / 2 ^ (n + 23)) x"
proof -
  have p: "2 powr (- real n) = 1 / 2 ^ n"
    by (simp add: powr_minus powr_realpow divide_inverse)
  have q: "2 powr (1 - real n) = 2 / 2 ^ n"
    by (simp add: powr_diff powr_realpow)
  have "round_nearest_even 24 x =
        round_to_multiple (2 powr (of_int (- int n) - of_nat 24 + 1)) x"
    using assms by (intro round_nearest_even_binade) (simp_all add: p q)
  also have "of_int (- int n) - of_nat 24 + 1 = - real (n + 23)"
    by simp
  also have "2 powr (- real (n + 23)) = 1 / 2 ^ (n + 23)"
    by (simp only: powr_minus powr_realpow zero_less_numeral divide_inverse mult_1)
  finally show ?thesis by (simp add: binary32_def)
qed

text \<open>
  The two constants are the decimal \<open>3.14159265358979323846\<close> rounded to the two formats.
\<close>

lemma M_PI_is_binary64_of_literal: "binary64 M_PI_literal = M_PI"
  unfolding M_PI_literal_def M_PI_def
  by (subst binary64_2_4; simp?)
     (subst round_to_multiple_eval [where k = 7074237752028440]; simp)

lemma M_PIf_is_binary32_of_literal: "binary32 M_PI_literal = M_PIf"
  unfolding M_PI_literal_def M_PIf_def
  by (subst binary32_2_4; simp?)
     (subst round_to_multiple_eval [where k = 13176794]; simp)

lemma M_PIf_differs: "M_PIf \<noteq> M_PI" "M_PI < M_PIf"
  by (simp_all add: M_PIf_def M_PI_def)

text \<open>The roundings of \<open>double\<close> met when \<open>1\<close> and \<open>0.75 * 2\<^sup>-\<^sup>5\<^sup>2\<close> are summed repeatedly.\<close>

lemma binary64_one: "x = 1 \<Longrightarrow> binary64 x = 1"
  by (subst binary64_1_2; simp?) (subst round_to_multiple_eval [where k = "2 ^ 52"]; simp)

lemma binary64_one_plus: "x = 1 + 3 / 2 ^ 54 \<Longrightarrow> binary64 x = 1 + 1 / 2 ^ 52"
  by (subst binary64_1_2; simp?) (subst round_to_multiple_eval [where k = "2 ^ 52"]; simp)

lemma binary64_two_tie: "x = 2 + 1 / 2 ^ 52 \<Longrightarrow> binary64 x = 2"
  by (subst binary64_2_4; simp?) (subst round_to_multiple_eval [where k = "2 ^ 52"]; simp)

lemma binary64_two_plus: "x = 2 + 3 / 2 ^ 54 \<Longrightarrow> binary64 x = 2"
  by (subst binary64_2_4; simp?) (subst round_to_multiple_eval [where k = "2 ^ 52"]; simp)

text \<open>The roundings of \<open>float\<close> met when \<open>1\<close>, \<open>3 * 2\<^sup>-\<^sup>2\<^sup>5\<close> and \<open>2\<^sup>-\<^sup>2\<^sup>4\<close> are summed.\<close>

lemma binary32_one: "x = 1 \<Longrightarrow> binary32 x = 1"
  by (subst binary32_1_2; simp?) (subst round_to_multiple_eval [where k = "2 ^ 23"]; simp)

lemma binary32_one_plus: "x = 1 + 3 / 2 ^ 25 \<Longrightarrow> binary32 x = 1 + 1 / 2 ^ 23"
  by (subst binary32_1_2; simp?) (subst round_to_multiple_eval [where k = "2 ^ 23"]; simp)

lemma binary32_quarter:
  "x = 1 + 1 / 2 ^ 23 + 1 / 2 ^ 25 \<Longrightarrow> binary32 x = 1 + 1 / 2 ^ 23"
  by (subst binary32_1_2; simp?) (subst round_to_multiple_eval [where k = "2 ^ 23 + 1"]; simp)

lemma binary32_tie:
  "x = 1 + 1 / 2 ^ 23 + 1 / 2 ^ 24 \<Longrightarrow> binary32 x = 1 + 1 / 2 ^ 22"
  by (subst binary32_1_2; simp?) (subst round_to_multiple_eval [where k = "2 ^ 23 + 1"]; simp)

lemma binary32_term: "x = 3 / 2 ^ 25 \<Longrightarrow> binary32 x = 3 / 2 ^ 25"
  by (subst binary32_small [where n = 24]; simp?)
     (subst round_to_multiple_eval [where k = "3 * 2 ^ 22"]; simp)

lemma binary32_ulp: "x = 1 / 2 ^ 23 \<Longrightarrow> binary32 x = 1 / 2 ^ 23"
  by (subst binary32_small [where n = 23]; simp?)
     (subst round_to_multiple_eval [where k = "2 ^ 23"]; simp)

lemma binary32_guard: "x = 1 / 2 ^ 25 \<Longrightarrow> binary32 x = 1 / 2 ^ 25"
  by (subst binary32_small [where n = 25]; simp?)
     (subst round_to_multiple_eval [where k = "2 ^ 23"]; simp)

lemma binary32_neg_guard: "x = - (1 / 2 ^ 25) \<Longrightarrow> binary32 x = - (1 / 2 ^ 25)"
  by (subst binary32_small [where n = 25]; simp?)
     (subst round_to_multiple_eval [where k = "- (2 ^ 23)"]; simp)

section \<open>Properties of the Gaussian correlator\<close>

lemma scale4c_add: "scale4c r (v + w) = scale4c r v + scale4c r w"
  by (simp add: scale4c_def plus_float4c_def algebra_simps)

lemma scale4c_two: "scale4c 2 v = v + v"
  by (simp add: scale4c_def plus_float4c_def)

lemma scale4c_zero: "scale4c r 0 = 0"
  by (simp add: scale4c_def zero_float4c_def)

subsection \<open>The two precisions over exact arithmetic\<close>

lemma accumulate_d_exact:
  "oskar_accumulate_baseline_visibility_for_source_d exact brightness vis source_id I Q U V
       station_p station_q smearing =
   vis + scale4c smearing (source_term brightness source_id I Q U V station_p station_q)"
  by (simp add: oskar_accumulate_baseline_visibility_for_source_d_def round4c_exact)

lemma accumulate_f_exact:
  "oskar_accumulate_baseline_visibility_for_source_f exact brightness vis source_id I Q U V
       station_p station_q smearing guard =
   (oskar_accumulate_baseline_visibility_for_source_d exact brightness vis source_id I Q U V
       station_p station_q smearing - guard, 0)"
  by (simp add: oskar_accumulate_baseline_visibility_for_source_f_def accumulate_d_exact
      round4c_exact Let_def)

lemma smearing_term_f_d:
  "smearing_term_f uu vv source_l source_m i = smearing_term_d uu vv source_l source_m i"
  by (simp add: smearing_term_f_def smearing_term_d_def oskar_sinc_f_def oskar_sinc_d_def)

lemma gaussian_term_f_d:
  "gaussian_term_f uu2 vv2 uuvv source_a source_b source_c i =
   gaussian_term_d uu2 vv2 uuvv source_a source_b source_c i"
  by (simp add: gaussian_term_f_def gaussian_term_d_def)

text \<open>
  The two setups differ in the constant only: \<open>M_PIf * frac_bandwidth\<close> in single precision
  is \<open>M_PI * (M_PIf * frac_bandwidth / M_PI)\<close>.
\<close>

lemma baseline_lengths_f_d:
  "baseline_lengths_f station_u station_v inv_wavelength frac_bandwidth station_q station_p =
   baseline_lengths_d station_u station_v inv_wavelength (M_PIf * frac_bandwidth / M_PI)
     station_q station_p"
proof -
  have "M_PI * (M_PIf * frac_bandwidth / M_PI) = M_PIf * frac_bandwidth"
    by (simp add: M_PI_def)
  then show ?thesis
    by (simp only: baseline_lengths_f_def baseline_lengths_d_def)
qed

lemma baseline_lengths_no_bandwidth:
  "baseline_lengths_f station_u station_v inv_wavelength 0 station_q station_p =
   baseline_lengths_d station_u station_v inv_wavelength 0 station_q station_p"
  by (simp add: baseline_lengths_f_def baseline_lengths_d_def)

lemma fold_guarded:
  assumes "\<And>i s. f i (s, 0) = (g i s, 0)"
  shows "fold f xs (s, 0) = (fold g xs s, 0)"
  using assms by (induction xs arbitrary: s) simp_all

lemma source_loop_f_d:
  "source_loop_f exact brightness num_sources source_I source_Q source_U source_V source_l
       source_m source_a source_b source_c sp sq uu vv uu2 vv2 uuvv =
   (source_loop_d exact brightness num_sources source_I source_Q source_U source_V source_l
       source_m source_a source_b source_c sp sq uu vv uu2 vv2 uuvv, 0)"
  unfolding source_loop_f_def source_loop_d_def
  by (rule fold_guarded) (simp add: Let_def accumulate_f_exact smearing_term_f_d gaussian_term_f_d)

lemma baseline_sum_f_d:
  "baseline_sum_f exact brightness num_sources source_I source_Q source_U source_V
       source_l source_m source_a source_b source_c station_u station_v inv_wavelength
       frac_bandwidth sp sq station_q station_p =
   (baseline_sum_d exact brightness num_sources source_I source_Q source_U source_V
       source_l source_m source_a source_b source_c station_u station_v inv_wavelength
       (M_PIf * frac_bandwidth / M_PI) sp sq station_q station_p, 0)"
  by (simp add: baseline_sum_f_def baseline_sum_d_def baseline_lengths_f_d source_loop_f_d
      split: prod.splits)

lemma baseline_sum_no_bandwidth:
  "baseline_sum_f exact brightness num_sources source_I source_Q source_U source_V
       source_l source_m source_a source_b source_c station_u station_v inv_wavelength
       0 sp sq station_q station_p =
   (baseline_sum_d exact brightness num_sources source_I source_Q source_U source_V
       source_l source_m source_a source_b source_c station_u station_v inv_wavelength
       0 sp sq station_q station_p, 0)"
  by (simp add: baseline_sum_f_def baseline_sum_d_def baseline_lengths_no_bandwidth
      source_loop_f_d split: prod.splits)

lemma baseline_body_f_d:
  "baseline_body_f exact brightness num_sources num_stations jones source_I source_Q source_U
       source_V source_l source_m source_a source_b source_c station_u station_v
       inv_wavelength frac_bandwidth sq station_q station_p vis =
   baseline_body_d exact brightness num_sources num_stations jones source_I source_Q source_U
       source_V source_l source_m source_a source_b source_c station_u station_v
       inv_wavelength (M_PIf * frac_bandwidth / M_PI) sq station_q station_p vis"
  by (simp add: baseline_body_f_def baseline_body_d_def baseline_sum_f_d Let_def)

lemma baseline_body_no_bandwidth:
  "baseline_body_f exact brightness num_sources num_stations jones source_I source_Q source_U
       source_V source_l source_m source_a source_b source_c station_u station_v
       inv_wavelength 0 sq station_q station_p vis =
   baseline_body_d exact brightness num_sources num_stations jones source_I source_Q source_U
       source_V source_l source_m source_a source_b source_c station_u station_v
       inv_wavelength 0 sq station_q station_p vis"
  by (simp add: baseline_body_f_def baseline_body_d_def baseline_sum_no_bandwidth Let_def)

lemma correlate_f_d:
  "oskar_correlate_gaussian_omp_f exact brightness num_sources num_stations jones source_I
       source_Q source_U source_V source_l source_m source_a source_b source_c station_u
       station_v inv_wavelength frac_bandwidth vis =
   oskar_correlate_gaussian_omp_d exact brightness num_sources num_stations jones source_I
       source_Q source_U source_V source_l source_m source_a source_b source_c station_u
       station_v inv_wavelength (M_PIf * frac_bandwidth / M_PI) vis"
  by (simp add: oskar_correlate_gaussian_omp_f_def oskar_correlate_gaussian_omp_d_def
      baseline_body_f_d)

lemma correlate_no_bandwidth:
  "oskar_correlate_gaussian_omp_f exact brightness num_sources num_stations jones source_I
       source_Q source_U source_V source_l source_m source_a source_b source_c station_u
       station_v inv_wavelength 0 vis =
   oskar_correlate_gaussian_omp_d exact brightness num_sources num_stations jones source_I
       source_Q source_U source_V source_l source_m source_a source_b source_c station_u
       station_v inv_wavelength 0 vis"
  by (simp add: oskar_correlate_gaussian_omp_f_def oskar_correlate_gaussian_omp_d_def
      baseline_body_no_bandwidth)

subsection \<open>The sum over the sources and its doubling\<close>

lemma fold_add_sum_list:
  "fold (\<lambda>i s. s + g i) xs s0 = s0 + sum_list (map g xs)" for s0 :: float4c
  by (induction xs arbitrary: s0) (simp_all add: add.assoc)

lemma upto_shift: "[i + n .. j + n] = map (\<lambda>k. k + n) [i .. j]"
proof (induction i j rule: upto.induct)
  case (1 i j)
  show ?case
  proof (cases "i \<le> j")
    case True
    then have "[i + n .. j + n] = (i + n) # [i + 1 + n .. j + n]"
      by (simp add: upto_rec1 add.commute add.left_commute)
    also have "\<dots> = map (\<lambda>k. k + n) (i # [i + 1 .. j])"
      using 1 True by simp
    finally show ?thesis using True by (simp add: upto_rec1)
  next
    case False
    then show ?thesis by simp
  qed
qed

lemma upto_double: "0 \<le> n \<Longrightarrow> [0 .. 2 * n - 1] = [0 .. n - 1] @ map (\<lambda>k. k + n) [0 .. n - 1]"
proof -
  assume n: "0 \<le> n"
  show ?thesis
  proof (cases "n = 0")
    case True
    then show ?thesis by simp
  next
    case False
    with n have "[0 .. 2 * n - 1] = [0 .. n - 1] @ [n - 1 + 1 .. 2 * n - 1]"
      by (intro upto_split2) simp_all
    moreover have "[0 + n .. (n - 1) + n] = map (\<lambda>k. k + n) [0 .. n - 1]"
      by (rule upto_shift)
    ultimately show ?thesis by simp
  qed
qed

lemma sum_list_duplicated:
  fixes g h :: "int \<Rightarrow> float4c"
  assumes "0 \<le> n" and "\<And>i. 0 \<le> i \<Longrightarrow> i < n \<Longrightarrow> h i = g i \<and> h (i + n) = g i"
  shows "sum_list (map h [0 .. 2 * n - 1]) =
         sum_list (map g [0 .. n - 1]) + sum_list (map g [0 .. n - 1])"
proof -
  have a: "map h [0 .. n - 1] = map g [0 .. n - 1]"
    using assms(2) by (intro map_cong refl) simp
  have b: "map (\<lambda>k. h (k + n)) [0 .. n - 1] = map g [0 .. n - 1]"
    using assms(2) by (intro map_cong refl) simp
  have "sum_list (map h [0 .. 2 * n - 1]) =
        sum_list (map h [0 .. n - 1]) + sum_list (map (\<lambda>k. h (k + n)) [0 .. n - 1])"
    by (simp add: upto_double [OF assms(1)] comp_def)
  then show ?thesis by (simp only: a b)
qed

lemma source_loop_d_sum:
  "source_loop_d exact brightness num_sources source_I source_Q source_U source_V source_l
       source_m source_a source_b source_c sp sq uu vv uu2 vv2 uuvv =
   sum_list (map (\<lambda>i. scale4c (smearing_term_d uu vv source_l source_m i *
                                 gaussian_term_d uu2 vv2 uuvv source_a source_b source_c i)
                          (source_term brightness i source_I source_Q source_U source_V sp sq))
                 [0 .. num_sources - 1])"
  by (simp add: source_loop_d_def accumulate_d_exact Let_def fold_add_sum_list)

lemma source_loop_d_doubled:
  assumes "duplicated num_sources source_I source_I'" "duplicated num_sources source_Q source_Q'"
    and "duplicated num_sources source_U source_U'" "duplicated num_sources source_V source_V'"
    and "duplicated num_sources source_l source_l'" "duplicated num_sources source_m source_m'"
    and "duplicated num_sources source_a source_a'" "duplicated num_sources source_b source_b'"
    and "duplicated num_sources source_c source_c'"
    and "duplicated num_sources sp sp'" "duplicated num_sources sq sq'"
  shows "source_loop_d exact brightness (2 * num_sources) source_I' source_Q' source_U'
           source_V' source_l' source_m' source_a' source_b' source_c' sp' sq'
           uu vv uu2 vv2 uuvv =
         source_loop_d exact brightness num_sources source_I source_Q source_U source_V
           source_l source_m source_a source_b source_c sp sq uu vv uu2 vv2 uuvv
       + source_loop_d exact brightness num_sources source_I source_Q source_U source_V
           source_l source_m source_a source_b source_c sp sq uu vv uu2 vv2 uuvv"
proof (cases "0 \<le> num_sources")
  case True
  show ?thesis
    unfolding source_loop_d_sum
    by (rule sum_list_duplicated [OF True])
      (use assms in \<open>simp add: duplicated_def smearing_term_d_def gaussian_term_d_def
        source_term_def Let_def\<close>)
next
  case False
  then show ?thesis by (simp add: source_loop_d_sum)
qed

lemma baseline_sum_d_doubled:
  assumes "duplicated num_sources source_I source_I'" "duplicated num_sources source_Q source_Q'"
    and "duplicated num_sources source_U source_U'" "duplicated num_sources source_V source_V'"
    and "duplicated num_sources source_l source_l'" "duplicated num_sources source_m source_m'"
    and "duplicated num_sources source_a source_a'" "duplicated num_sources source_b source_b'"
    and "duplicated num_sources source_c source_c'"
    and "duplicated num_sources sp sp'" "duplicated num_sources sq sq'"
  shows "baseline_sum_d exact brightness (2 * num_sources) source_I' source_Q' source_U'
           source_V' source_l' source_m' source_a' source_b' source_c' station_u station_v
           inv_wavelength frac_bandwidth sp' sq' station_q station_p =
         scale4c 2 (baseline_sum_d exact brightness num_sources source_I source_Q source_U
           source_V source_l source_m source_a source_b source_c station_u station_v
           inv_wavelength frac_bandwidth sp sq station_q station_p)"
  unfolding baseline_sum_d_def scale4c_two
  by (simp add: source_loop_d_doubled [OF assms] split: prod.splits)

text \<open>
  Under any rounding the source loop of the doubled call is the source loop of the first
  call followed by a second pass over the same sources, which starts from the local sum
  (and the guard) that the first pass left.
\<close>

lemma fold_duplicated:
  assumes "0 \<le> n"
    and "\<And>i s. 0 \<le> i \<Longrightarrow> i < n \<Longrightarrow> h i s = g i s \<and> h (i + n) s = g i s"
  shows "fold h [0 .. 2 * n - 1] s = fold g [0 .. n - 1] (fold g [0 .. n - 1] s)"
proof -
  have a: "fold h [0 .. n - 1] s = fold g [0 .. n - 1] s" for s
    using assms(2) by (intro fold_cong refl ext) simp_all
  have b: "fold (h \<circ> (\<lambda>k. k + n)) [0 .. n - 1] s = fold g [0 .. n - 1] s" for s
    using assms(2) by (intro fold_cong refl ext) simp_all
  show ?thesis
    by (simp add: upto_double [OF assms(1)] fold_map a b)
qed

lemma source_loop_d_doubled_rounded:
  assumes "duplicated num_sources source_I source_I'" "duplicated num_sources source_Q source_Q'"
    and "duplicated num_sources source_U source_U'" "duplicated num_sources source_V source_V'"
    and "duplicated num_sources source_l source_l'" "duplicated num_sources source_m source_m'"
    and "duplicated num_sources source_a source_a'" "duplicated num_sources source_b source_b'"
    and "duplicated num_sources source_c source_c'"
    and "duplicated num_sources sp sp'" "duplicated num_sources sq sq'"
  shows "source_loop_d rnd brightness (2 * num_sources) source_I' source_Q' source_U'
           source_V' source_l' source_m' source_a' source_b' source_c' sp' sq'
           uu vv uu2 vv2 uuvv =
         fold (\<lambda>i sum.
                 oskar_accumulate_baseline_visibility_for_source_d rnd brightness sum i
                   source_I source_Q source_U source_V sp sq
                   (smearing_term_d uu vv source_l source_m i *
                    gaussian_term_d uu2 vv2 uuvv source_a source_b source_c i))
              [0 .. num_sources - 1]
              (source_loop_d rnd brightness num_sources source_I source_Q source_U source_V
                 source_l source_m source_a source_b source_c sp sq uu vv uu2 vv2 uuvv)"
proof (cases "0 \<le> num_sources")
  case True
  show ?thesis
    unfolding source_loop_d_def Let_def
    by (rule fold_duplicated [OF True])
      (use assms in \<open>simp add: duplicated_def smearing_term_d_def gaussian_term_d_def
        oskar_accumulate_baseline_visibility_for_source_d_def source_term_def Let_def\<close>)
next
  case False
  then show ?thesis by (simp add: source_loop_d_def)
qed

lemma source_loop_f_doubled_rounded:
  assumes "duplicated num_sources source_I source_I'" "duplicated num_sources source_Q source_Q'"
    and "duplicated num_sources source_U source_U'" "duplicated num_sources source_V source_V'"
    and "duplicated num_sources source_l source_l'" "duplicated num_sources source_m source_m'"
    and "duplicated num_sources source_a source_a'" "duplicated num_sources source_b source_b'"
    and "duplicated num_sources source_c source_c'"
    and "duplicated num_sources sp sp'" "duplicated num_sources sq sq'"
  shows "source_loop_f rnd brightness (2 * num_sources) source_I' source_Q' source_U'
           source_V' source_l' source_m' source_a' source_b' source_c' sp' sq'
           uu vv uu2 vv2 uuvv =
         fold (\<lambda>i (sum, guard).
                 oskar_accumulate_baseline_visibility_for_source_f rnd brightness sum i
                   source_I source_Q source_U source_V sp sq
                   (smearing_term_f uu vv source_l source_m i *
                    gaussian_term_f uu2 vv2 uuvv source_a source_b source_c i) guard)
              [0 .. num_sources - 1]
              (source_loop_f rnd brightness num_sources source_I source_Q source_U source_V
                 source_l source_m source_a source_b source_c sp sq uu vv uu2 vv2 uuvv)"
proof (cases "0 \<le> num_sources")
  case True
  show ?thesis
    unfolding source_loop_f_def Let_def
    by (rule fold_duplicated [OF True])
      (use assms in \<open>auto simp add: duplicated_def smearing_term_f_def gaussian_term_f_def
        oskar_accumulate_baseline_visibility_for_source_f_def source_term_def Let_def\<close>)
next
  case False
  then show ?thesis by (simp add: source_loop_f_def)
qed

subsection \<open>The station loops\<close>

lemma fold_concat_map:
  "fold f (concat (map g xs)) s = fold (\<lambda>x. fold f (g x)) xs s"
  by (induction xs arbitrary: s) simp_all

lemma nested_station_loops:
  "fold (\<lambda>station_q vis. fold (\<lambda>station_p vis. body station_q station_p vis)
                               [station_q + 1 .. num_stations - 1] vis)
        [0 .. num_stations - 1] vis =
   fold (\<lambda>(station_q, station_p) vis. body station_q station_p vis)
        (baselines_visited num_stations) vis"
  by (simp add: baselines_visited_def fold_concat_map fold_map comp_def)

lemma correlate_d_baselines:
  "oskar_correlate_gaussian_omp_d rnd brightness num_sources num_stations jones source_I
       source_Q source_U source_V source_l source_m source_a source_b source_c station_u
       station_v inv_wavelength frac_bandwidth vis =
   fold (\<lambda>(station_q, station_p) vis.
           baseline_body_d rnd brightness num_sources num_stations jones source_I
             source_Q source_U source_V source_l source_m source_a source_b source_c
             station_u station_v inv_wavelength frac_bandwidth
             (\<lambda>i. jones (mul32 station_q num_sources + i)) station_q station_p vis)
        (baselines_visited num_stations) vis"
  unfolding oskar_correlate_gaussian_omp_d_def Let_def by (rule nested_station_loops)

lemma correlate_f_baselines:
  "oskar_correlate_gaussian_omp_f rnd brightness num_sources num_stations jones source_I
       source_Q source_U source_V source_l source_m source_a source_b source_c station_u
       station_v inv_wavelength frac_bandwidth vis =
   fold (\<lambda>(station_q, station_p) vis.
           baseline_body_f rnd brightness num_sources num_stations jones source_I
             source_Q source_U source_V source_l source_m source_a source_b source_c
             station_u station_v inv_wavelength frac_bandwidth
             (\<lambda>i. jones (mul32 station_q num_sources + i)) station_q station_p vis)
        (baselines_visited num_stations) vis"
  unfolding oskar_correlate_gaussian_omp_f_def Let_def by (rule nested_station_loops)

lemma fold_slot_update:
  fixes vis :: "float4c array"
  shows "fold (\<lambda>b vis. vis(slot b := vis (slot b) + S b)) bs vis k =
         vis k + sum_list (map (\<lambda>b. if slot b = k then S b else 0) bs)"
  by (induction bs arbitrary: vis) (simp_all add: add.assoc)

lemma set_baselines_visited:
  "set (baselines_visited num_stations) = station_pairs num_stations"
proof (rule set_eqI)
  fix b :: "int \<times> int"
  obtain q p where b: "b = (q, p)" by (cases b)
  have "(q, p) \<in> set (baselines_visited num_stations) \<longleftrightarrow>
        q \<in> {0 .. num_stations - 1} \<and> p \<in> {q + 1 .. num_stations - 1}"
  proof
    assume "(q, p) \<in> set (baselines_visited num_stations)"
    then show "q \<in> {0 .. num_stations - 1} \<and> p \<in> {q + 1 .. num_stations - 1}"
      by (auto simp: baselines_visited_def)
  next
    assume "q \<in> {0 .. num_stations - 1} \<and> p \<in> {q + 1 .. num_stations - 1}"
    then have "q \<in> {0 .. num_stations - 1}"
      and "(q, p) \<in> Pair q ` {q + 1 .. num_stations - 1}" by simp_all
    then have "\<exists>x \<in> {0 .. num_stations - 1}. (q, p) \<in> Pair x ` {x + 1 .. num_stations - 1}"
      by (rule bexI [rotated])
    then show "(q, p) \<in> set (baselines_visited num_stations)"
      by (simp add: baselines_visited_def)
  qed
  also have "\<dots> \<longleftrightarrow> 0 \<le> q \<and> q < p \<and> p < num_stations"
    by auto
  finally show "b \<in> set (baselines_visited num_stations) \<longleftrightarrow> b \<in> station_pairs num_stations"
    unfolding b by (simp add: station_pairs_def)
qed

lemma baseline_body_d_update:
  "baseline_body_d rnd brightness num_sources num_stations jones source_I source_Q source_U
       source_V source_l source_m source_a source_b source_c station_u station_v
       inv_wavelength frac_bandwidth sq station_q station_p vis =
   vis(baseline_index num_stations station_q station_p :=
         vis (baseline_index num_stations station_q station_p) +
         baseline_sum_d rnd brightness num_sources source_I source_Q source_U source_V
           source_l source_m source_a source_b source_c station_u station_v inv_wavelength
           frac_bandwidth (\<lambda>i. jones (mul32 station_p num_sources + i)) sq
           station_q station_p)"
  by (simp add: baseline_body_d_def Let_def)

lemma baseline_body_f_update:
  "baseline_body_f rnd brightness num_sources num_stations jones source_I source_Q source_U
       source_V source_l source_m source_a source_b source_c station_u station_v
       inv_wavelength frac_bandwidth sq station_q station_p vis =
   vis(baseline_index num_stations station_q station_p :=
         vis (baseline_index num_stations station_q station_p) +
         fst (baseline_sum_f rnd brightness num_sources source_I source_Q source_U source_V
           source_l source_m source_a source_b source_c station_u station_v inv_wavelength
           frac_bandwidth (\<lambda>i. jones (mul32 station_p num_sources + i)) sq
           station_q station_p))"
  by (simp add: baseline_body_f_def Let_def case_prod_beta)

lemma correlate_d_contribution:
  "oskar_correlate_gaussian_omp_d rnd brightness num_sources num_stations jones source_I
       source_Q source_U source_V source_l source_m source_a source_b source_c station_u
       station_v inv_wavelength frac_bandwidth vis k =
   vis k + sum_list (map (\<lambda>b. if baseline_index num_stations (fst b) (snd b) = k
                               then baseline_sum_d rnd brightness num_sources source_I
                                      source_Q source_U source_V source_l source_m source_a
                                      source_b source_c station_u station_v inv_wavelength
                                      frac_bandwidth
                                      (\<lambda>i. jones (mul32 (snd b) num_sources + i))
                                      (\<lambda>i. jones (mul32 (fst b) num_sources + i))
                                      (fst b) (snd b)
                               else 0)
                         (baselines_visited num_stations))"
  unfolding correlate_d_baselines baseline_body_d_update case_prod_beta
  by (rule fold_slot_update)

lemma correlate_f_contribution:
  "oskar_correlate_gaussian_omp_f rnd brightness num_sources num_stations jones source_I
       source_Q source_U source_V source_l source_m source_a source_b source_c station_u
       station_v inv_wavelength frac_bandwidth vis k =
   vis k + sum_list (map (\<lambda>b. if baseline_index num_stations (fst b) (snd b) = k
                               then fst (baseline_sum_f rnd brightness num_sources source_I
                                      source_Q source_U source_V source_l source_m source_a
                                      source_b source_c station_u station_v inv_wavelength
                                      frac_bandwidth
                                      (\<lambda>i. jones (mul32 (snd b) num_sources + i))
                                      (\<lambda>i. jones (mul32 (fst b) num_sources + i))
                                      (fst b) (snd b))
                               else 0)
                         (baselines_visited num_stations))"
  unfolding correlate_f_baselines baseline_body_f_update case_prod_beta
  by (rule fold_slot_update)

lemma correlate_d_writes:
  "oskar_correlate_gaussian_omp_d rnd brightness num_sources num_stations jones source_I
       source_Q source_U source_V source_l source_m source_a source_b source_c station_u
       station_v inv_wavelength frac_bandwidth vis =
   fold (\<lambda>b vis.
           vis(baseline_index num_stations (fst b) (snd b) :=
                 vis (baseline_index num_stations (fst b) (snd b)) +
                 baseline_sum_d rnd brightness num_sources source_I source_Q source_U source_V
                   source_l source_m source_a source_b source_c station_u station_v
                   inv_wavelength frac_bandwidth
                   (\<lambda>i. jones (mul32 (snd b) num_sources + i))
                   (\<lambda>i. jones (mul32 (fst b) num_sources + i)) (fst b) (snd b)))
        (baselines_visited num_stations) vis"
  unfolding correlate_d_baselines baseline_body_d_update case_prod_beta ..

lemma correlate_f_writes:
  "oskar_correlate_gaussian_omp_f rnd brightness num_sources num_stations jones source_I
       source_Q source_U source_V source_l source_m source_a source_b source_c station_u
       station_v inv_wavelength frac_bandwidth vis =
   fold (\<lambda>b vis.
           vis(baseline_index num_stations (fst b) (snd b) :=
                 vis (baseline_index num_stations (fst b) (snd b)) +
                 fst (baseline_sum_f rnd brightness num_sources source_I source_Q source_U
                   source_V source_l source_m source_a source_b source_c station_u
                   station_v inv_wavelength frac_bandwidth
                   (\<lambda>i. jones (mul32 (snd b) num_sources + i))
                   (\<lambda>i. jones (mul32 (fst b) num_sources + i)) (fst b) (snd b))))
        (baselines_visited num_stations) vis"
  unfolding correlate_f_baselines baseline_body_f_update case_prod_beta ..

lemma sum_list_scaled:
  fixes g h :: "'b \<Rightarrow> float4c"
  assumes "\<And>b. b \<in> set bs \<Longrightarrow> h b = scale4c r (g b)"
  shows "sum_list (map h bs) = scale4c r (sum_list (map g bs))"
  using assms by (induction bs) (simp_all add: scale4c_zero scale4c_add)

lemma correlate_d_doubled:
  assumes src: "duplicated num_sources source_I source_I'"
      "duplicated num_sources source_Q source_Q'"
      "duplicated num_sources source_U source_U'" "duplicated num_sources source_V source_V'"
      "duplicated num_sources source_l source_l'" "duplicated num_sources source_m source_m'"
      "duplicated num_sources source_a source_a'" "duplicated num_sources source_b source_b'"
      "duplicated num_sources source_c source_c'"
    and jones: "\<And>s. 0 \<le> s \<Longrightarrow> s < num_stations \<Longrightarrow>
        duplicated num_sources (\<lambda>i. jones (mul32 s num_sources + i))
                               (\<lambda>i. jones' (mul32 s (2 * num_sources) + i))"
  shows "oskar_correlate_gaussian_omp_d exact brightness (2 * num_sources) num_stations jones'
           source_I' source_Q' source_U' source_V' source_l' source_m' source_a' source_b'
           source_c' station_u station_v inv_wavelength frac_bandwidth vis k - vis k =
         scale4c 2 (oskar_correlate_gaussian_omp_d exact brightness num_sources num_stations
           jones source_I source_Q source_U source_V source_l source_m source_a source_b
           source_c station_u station_v inv_wavelength frac_bandwidth vis k - vis k)"
  unfolding correlate_d_contribution add_diff_cancel_left'
proof (rule sum_list_scaled)
  fix b assume "b \<in> set (baselines_visited num_stations)"
  then have b: "0 \<le> fst b" "fst b < snd b" "snd b < num_stations"
    by (auto simp: set_baselines_visited station_pairs_def)
  have "duplicated num_sources (\<lambda>i. jones (mul32 (snd b) num_sources + i))
                               (\<lambda>i. jones' (mul32 (snd b) (2 * num_sources) + i))"
    and "duplicated num_sources (\<lambda>i. jones (mul32 (fst b) num_sources + i))
                               (\<lambda>i. jones' (mul32 (fst b) (2 * num_sources) + i))"
    using b by (intro jones; simp)+
  from baseline_sum_d_doubled [OF src this]
  show "(if baseline_index num_stations (fst b) (snd b) = k
         then baseline_sum_d exact brightness (2 * num_sources) source_I' source_Q' source_U'
                source_V' source_l' source_m' source_a' source_b' source_c' station_u
                station_v inv_wavelength frac_bandwidth
                (\<lambda>i. jones' (mul32 (snd b) (2 * num_sources) + i))
                (\<lambda>i. jones' (mul32 (fst b) (2 * num_sources) + i)) (fst b) (snd b)
         else 0) =
        scale4c 2 (if baseline_index num_stations (fst b) (snd b) = k
         then baseline_sum_d exact brightness num_sources source_I source_Q source_U
                source_V source_l source_m source_a source_b source_c station_u
                station_v inv_wavelength frac_bandwidth
                (\<lambda>i. jones (mul32 (snd b) num_sources + i))
                (\<lambda>i. jones (mul32 (fst b) num_sources + i)) (fst b) (snd b)
         else 0)"
    by (simp add: scale4c_zero)
qed

subsection \<open>Degenerate counts\<close>

lemma baselines_visited_empty: "num_stations < 2 \<Longrightarrow> baselines_visited num_stations = []"
proof -
  assume "num_stations < 2"
  then consider "num_stations < 1" | "num_stations = 1" by linarith
  then show ?thesis
    by cases (simp_all add: baselines_visited_def)
qed

lemma source_loop_d_no_sources:
  "source_loop_d rnd brightness 0 source_I source_Q source_U source_V source_l source_m
       source_a source_b source_c sp sq uu vv uu2 vv2 uuvv = 0"
  by (simp add: source_loop_d_def)

lemma source_loop_f_no_sources:
  "source_loop_f rnd brightness 0 source_I source_Q source_U source_V source_l source_m
       source_a source_b source_c sp sq uu vv uu2 vv2 uuvv = (0, 0)"
  by (simp add: source_loop_f_def)

lemma baseline_sum_d_no_sources:
  "baseline_sum_d rnd brightness 0 source_I source_Q source_U source_V source_l source_m
       source_a source_b source_c station_u station_v inv_wavelength frac_bandwidth
       sp sq station_q station_p = 0"
  by (simp add: baseline_sum_d_def source_loop_d_no_sources split: prod.splits)

lemma baseline_sum_f_no_sources:
  "baseline_sum_f rnd brightness 0 source_I source_Q source_U source_V source_l source_m
       source_a source_b source_c station_u station_v inv_wavelength frac_bandwidth
       sp sq station_q station_p = (0, 0)"
  by (simp add: baseline_sum_f_def source_loop_f_no_sources split: prod.splits)

lemma correlate_d_no_sources:
  "oskar_correlate_gaussian_omp_d rnd brightness 0 num_stations jones source_I source_Q
       source_U source_V source_l source_m source_a source_b source_c station_u station_v
       inv_wavelength frac_bandwidth vis = vis"
  by (rule ext) (simp add: correlate_d_contribution baseline_sum_d_no_sources cong: if_cong)

lemma correlate_f_no_sources:
  "oskar_correlate_gaussian_omp_f rnd brightness 0 num_stations jones source_I source_Q
       source_U source_V source_l source_m source_a source_b source_c station_u station_v
       inv_wavelength frac_bandwidth vis = vis"
  by (rule ext) (simp add: correlate_f_contribution baseline_sum_f_no_sources cong: if_cong)

lemma correlate_d_no_baselines:
  "num_stations < 2 \<Longrightarrow>
   oskar_correlate_gaussian_omp_d rnd brightness num_sources num_stations jones source_I
       source_Q source_U source_V source_l source_m source_a source_b source_c station_u
       station_v inv_wavelength frac_bandwidth vis = vis"
  by (simp add: correlate_d_baselines baselines_visited_empty)

lemma correlate_f_no_baselines:
  "num_stations < 2 \<Longrightarrow>
   oskar_correlate_gaussian_omp_f rnd brightness num_sources num_stations jones source_I
       source_Q source_U source_V source_l source_m source_a source_b source_c station_u
       station_v inv_wavelength frac_bandwidth vis = vis"
  by (simp add: correlate_f_baselines baselines_visited_empty)

subsection \<open>The terms of a baseline\<close>

lemma baseline_lengths_d_closed:
  "baseline_lengths_d station_u station_v inv_wavelength frac_bandwidth station_q station_p =
     (M_PI * frac_bandwidth * ((station_u station_p - station_u station_q) * inv_wavelength),
      M_PI * frac_bandwidth * ((station_v station_p - station_v station_q) * inv_wavelength),
      ((station_u station_p - station_u station_q) * inv_wavelength) *
        ((station_u station_p - station_u station_q) * inv_wavelength),
      ((station_v station_p - station_v station_q) * inv_wavelength) *
        ((station_v station_p - station_v station_q) * inv_wavelength),
      2 * ((station_u station_p - station_u station_q) * inv_wavelength) *
        ((station_v station_p - station_v station_q) * inv_wavelength))"
  by (simp add: baseline_lengths_d_def Let_def)

lemma baseline_lengths_f_closed:
  "baseline_lengths_f station_u station_v inv_wavelength frac_bandwidth station_q station_p =
     (M_PIf * frac_bandwidth * ((station_u station_p - station_u station_q) * inv_wavelength),
      M_PIf * frac_bandwidth * ((station_v station_p - station_v station_q) * inv_wavelength),
      ((station_u station_p - station_u station_q) * inv_wavelength) *
        ((station_u station_p - station_u station_q) * inv_wavelength),
      ((station_v station_p - station_v station_q) * inv_wavelength) *
        ((station_v station_p - station_v station_q) * inv_wavelength),
      2 * ((station_u station_p - station_u station_q) * inv_wavelength) *
        ((station_v station_p - station_v station_q) * inv_wavelength))"
  by (simp add: baseline_lengths_f_def Let_def)

lemma source_loop_f_sum:
  "fst (source_loop_f exact brightness num_sources source_I source_Q source_U source_V
       source_l source_m source_a source_b source_c sp sq uu vv uu2 vv2 uuvv) =
   sum_list (map (\<lambda>i. scale4c (smearing_term_f uu vv source_l source_m i *
                                 gaussian_term_f uu2 vv2 uuvv source_a source_b source_c i)
                          (source_term brightness i source_I source_Q source_U source_V sp sq))
                 [0 .. num_sources - 1])"
  by (simp add: source_loop_f_d source_loop_d_sum smearing_term_f_d gaussian_term_f_d)

text \<open>
  Claim C2. For every baseline \<open>(station_q, station_p)\<close> and source \<open>i\<close>, with
  \<open>uu0 = (u\<^sub>p - u\<^sub>q) * inv_wavelength\<close> and \<open>vv0 = (v\<^sub>p - v\<^sub>q) * inv_wavelength\<close> the baseline
  lengths before rescaling: the Gaussian term is
  \<open>r2 = exp (- (a\<^sub>i * uu0\<^sup>2 + b\<^sub>i * (2 * uu0 * vv0) + c\<^sub>i * vv0\<^sup>2))\<close>, and the smearing term is
  the sinc of \<open>(pi * frac_bandwidth * uu0) * l\<^sub>i + (pi * frac_bandwidth * vv0) * m\<^sub>i\<close>,
  where \<open>pi\<close> is the constant \<open>M_PIf\<close> (\<open>M_PI\<close>) of the source. Both precisions; and the
  local sum of the baseline is the sum over the sources of the source terms weighted by
  \<open>r1 * r2\<close> with these values: over exact arithmetic as a sum, and under every rounding
  \<open>rnd\<close> as the accumulation, source by source, of the terms with these weights.
\<close>

theorem gaussian_terms_use_unscaled_lengths:
  "(case baseline_lengths_f station_u station_v inv_wavelength frac_bandwidth
           station_q station_p of
      (uu, vv, uu2, vv2, uuvv) \<Rightarrow>
        let uu0 = (station_u station_p - station_u station_q) * inv_wavelength;
            vv0 = (station_v station_p - station_v station_q) * inv_wavelength
        in gaussian_term_f uu2 vv2 uuvv source_a source_b source_c i =
             exp (- (source_a i * (uu0 * uu0) + source_b i * (2 * uu0 * vv0)
                     + source_c i * (vv0 * vv0)))
         \<and> smearing_term_f uu vv source_l source_m i =
             oskar_sinc_f ((M_PIf * frac_bandwidth * uu0) * source_l i
                           + (M_PIf * frac_bandwidth * vv0) * source_m i))
   \<and> (case baseline_lengths_d station_u station_v inv_wavelength frac_bandwidth
           station_q station_p of
      (uu, vv, uu2, vv2, uuvv) \<Rightarrow>
        let uu0 = (station_u station_p - station_u station_q) * inv_wavelength;
            vv0 = (station_v station_p - station_v station_q) * inv_wavelength
        in gaussian_term_d uu2 vv2 uuvv source_a source_b source_c i =
             exp (- (source_a i * (uu0 * uu0) + source_b i * (2 * uu0 * vv0)
                     + source_c i * (vv0 * vv0)))
         \<and> smearing_term_d uu vv source_l source_m i =
             oskar_sinc_d ((M_PI * frac_bandwidth * uu0) * source_l i
                           + (M_PI * frac_bandwidth * vv0) * source_m i))
   \<and> baseline_sum_d exact brightness num_sources source_I source_Q source_U source_V
        source_l source_m source_a source_b source_c station_u station_v inv_wavelength
        frac_bandwidth sp sq station_q station_p =
      (let uu0 = (station_u station_p - station_u station_q) * inv_wavelength;
           vv0 = (station_v station_p - station_v station_q) * inv_wavelength
       in sum_list (map (\<lambda>i.
            let r1 = oskar_sinc_d ((M_PI * frac_bandwidth * uu0) * source_l i
                                   + (M_PI * frac_bandwidth * vv0) * source_m i);
                r2 = exp (- (source_a i * (uu0 * uu0) + source_b i * (2 * uu0 * vv0)
                             + source_c i * (vv0 * vv0)))
            in scale4c (r1 * r2)
                 (source_term brightness i source_I source_Q source_U source_V sp sq))
          [0 .. num_sources - 1]))
   \<and> fst (baseline_sum_f exact brightness num_sources source_I source_Q source_U source_V
        source_l source_m source_a source_b source_c station_u station_v inv_wavelength
        frac_bandwidth sp sq station_q station_p) =
      (let uu0 = (station_u station_p - station_u station_q) * inv_wavelength;
           vv0 = (station_v station_p - station_v station_q) * inv_wavelength
       in sum_list (map (\<lambda>i.
            let r1 = oskar_sinc_f ((M_PIf * frac_bandwidth * uu0) * source_l i
                                   + (M_PIf * frac_bandwidth * vv0) * source_m i);
                r2 = exp (- (source_a i * (uu0 * uu0) + source_b i * (2 * uu0 * vv0)
                             + source_c i * (vv0 * vv0)))
            in scale4c (r1 * r2)
                 (source_term brightness i source_I source_Q source_U source_V sp sq))
          [0 .. num_sources - 1]))
   \<and> baseline_sum_d rnd brightness num_sources source_I source_Q source_U source_V
        source_l source_m source_a source_b source_c station_u station_v inv_wavelength
        frac_bandwidth sp sq station_q station_p =
      (let uu0 = (station_u station_p - station_u station_q) * inv_wavelength;
           vv0 = (station_v station_p - station_v station_q) * inv_wavelength
       in fold (\<lambda>i sum.
            let r1 = oskar_sinc_d ((M_PI * frac_bandwidth * uu0) * source_l i
                                   + (M_PI * frac_bandwidth * vv0) * source_m i);
                r2 = exp (- (source_a i * (uu0 * uu0) + source_b i * (2 * uu0 * vv0)
                             + source_c i * (vv0 * vv0)))
            in oskar_accumulate_baseline_visibility_for_source_d rnd brightness sum i
                 source_I source_Q source_U source_V sp sq (r1 * r2))
          [0 .. num_sources - 1] 0)
   \<and> baseline_sum_f rnd brightness num_sources source_I source_Q source_U source_V
        source_l source_m source_a source_b source_c station_u station_v inv_wavelength
        frac_bandwidth sp sq station_q station_p =
      (let uu0 = (station_u station_p - station_u station_q) * inv_wavelength;
           vv0 = (station_v station_p - station_v station_q) * inv_wavelength
       in fold (\<lambda>i (sum, guard).
            let r1 = oskar_sinc_f ((M_PIf * frac_bandwidth * uu0) * source_l i
                                   + (M_PIf * frac_bandwidth * vv0) * source_m i);
                r2 = exp (- (source_a i * (uu0 * uu0) + source_b i * (2 * uu0 * vv0)
                             + source_c i * (vv0 * vv0)))
            in oskar_accumulate_baseline_visibility_for_source_f rnd brightness sum i
                 source_I source_Q source_U source_V sp sq (r1 * r2) guard)
          [0 .. num_sources - 1] (0, 0))"
proof -
  have sum_d: "baseline_sum_d exact brightness num_sources source_I source_Q source_U source_V
        source_l source_m source_a source_b source_c station_u station_v inv_wavelength
        frac_bandwidth sp sq station_q station_p =
      (let uu0 = (station_u station_p - station_u station_q) * inv_wavelength;
           vv0 = (station_v station_p - station_v station_q) * inv_wavelength
       in sum_list (map (\<lambda>i.
            let r1 = oskar_sinc_d ((M_PI * frac_bandwidth * uu0) * source_l i
                                   + (M_PI * frac_bandwidth * vv0) * source_m i);
                r2 = exp (- (source_a i * (uu0 * uu0) + source_b i * (2 * uu0 * vv0)
                             + source_c i * (vv0 * vv0)))
            in scale4c (r1 * r2)
                 (source_term brightness i source_I source_Q source_U source_V sp sq))
          [0 .. num_sources - 1]))"
    by (simp add: baseline_sum_d_def baseline_lengths_d_closed source_loop_d_sum
        smearing_term_d_def gaussian_term_d_def Let_def mult.commute)
  have sum_f: "fst (baseline_sum_f exact brightness num_sources source_I source_Q source_U
        source_V source_l source_m source_a source_b source_c station_u station_v
        inv_wavelength frac_bandwidth sp sq station_q station_p) =
      (let uu0 = (station_u station_p - station_u station_q) * inv_wavelength;
           vv0 = (station_v station_p - station_v station_q) * inv_wavelength
       in sum_list (map (\<lambda>i.
            let r1 = oskar_sinc_f ((M_PIf * frac_bandwidth * uu0) * source_l i
                                   + (M_PIf * frac_bandwidth * vv0) * source_m i);
                r2 = exp (- (source_a i * (uu0 * uu0) + source_b i * (2 * uu0 * vv0)
                             + source_c i * (vv0 * vv0)))
            in scale4c (r1 * r2)
                 (source_term brightness i source_I source_Q source_U source_V sp sq))
          [0 .. num_sources - 1]))"
    by (simp add: baseline_sum_f_def baseline_lengths_f_closed source_loop_f_sum
        smearing_term_f_def gaussian_term_f_def Let_def mult.commute)
  have terms_d: "(case baseline_lengths_d station_u station_v inv_wavelength frac_bandwidth
           station_q station_p of
      (uu, vv, uu2, vv2, uuvv) \<Rightarrow>
        let uu0 = (station_u station_p - station_u station_q) * inv_wavelength;
            vv0 = (station_v station_p - station_v station_q) * inv_wavelength
        in gaussian_term_d uu2 vv2 uuvv source_a source_b source_c i =
             exp (- (source_a i * (uu0 * uu0) + source_b i * (2 * uu0 * vv0)
                     + source_c i * (vv0 * vv0)))
         \<and> smearing_term_d uu vv source_l source_m i =
             oskar_sinc_d ((M_PI * frac_bandwidth * uu0) * source_l i
                           + (M_PI * frac_bandwidth * vv0) * source_m i))"
    by (simp add: baseline_lengths_d_closed smearing_term_d_def gaussian_term_d_def Let_def
        mult.commute)
  have terms_f: "(case baseline_lengths_f station_u station_v inv_wavelength frac_bandwidth
           station_q station_p of
      (uu, vv, uu2, vv2, uuvv) \<Rightarrow>
        let uu0 = (station_u station_p - station_u station_q) * inv_wavelength;
            vv0 = (station_v station_p - station_v station_q) * inv_wavelength
        in gaussian_term_f uu2 vv2 uuvv source_a source_b source_c i =
             exp (- (source_a i * (uu0 * uu0) + source_b i * (2 * uu0 * vv0)
                     + source_c i * (vv0 * vv0)))
         \<and> smearing_term_f uu vv source_l source_m i =
             oskar_sinc_f ((M_PIf * frac_bandwidth * uu0) * source_l i
                           + (M_PIf * frac_bandwidth * vv0) * source_m i))"
    by (simp add: baseline_lengths_f_closed smearing_term_f_def gaussian_term_f_def Let_def
        mult.commute)
  have acc_d: "baseline_sum_d rnd brightness num_sources source_I source_Q source_U source_V
        source_l source_m source_a source_b source_c station_u station_v inv_wavelength
        frac_bandwidth sp sq station_q station_p =
      (let uu0 = (station_u station_p - station_u station_q) * inv_wavelength;
           vv0 = (station_v station_p - station_v station_q) * inv_wavelength
       in fold (\<lambda>i sum.
            let r1 = oskar_sinc_d ((M_PI * frac_bandwidth * uu0) * source_l i
                                   + (M_PI * frac_bandwidth * vv0) * source_m i);
                r2 = exp (- (source_a i * (uu0 * uu0) + source_b i * (2 * uu0 * vv0)
                             + source_c i * (vv0 * vv0)))
            in oskar_accumulate_baseline_visibility_for_source_d rnd brightness sum i
                 source_I source_Q source_U source_V sp sq (r1 * r2))
          [0 .. num_sources - 1] 0)"
    by (simp add: baseline_sum_d_def baseline_lengths_d_closed source_loop_d_def
        smearing_term_d_def gaussian_term_d_def Let_def mult.commute)
  have acc_f: "baseline_sum_f rnd brightness num_sources source_I source_Q source_U source_V
        source_l source_m source_a source_b source_c station_u station_v inv_wavelength
        frac_bandwidth sp sq station_q station_p =
      (let uu0 = (station_u station_p - station_u station_q) * inv_wavelength;
           vv0 = (station_v station_p - station_v station_q) * inv_wavelength
       in fold (\<lambda>i (sum, guard).
            let r1 = oskar_sinc_f ((M_PIf * frac_bandwidth * uu0) * source_l i
                                   + (M_PIf * frac_bandwidth * vv0) * source_m i);
                r2 = exp (- (source_a i * (uu0 * uu0) + source_b i * (2 * uu0 * vv0)
                             + source_c i * (vv0 * vv0)))
            in oskar_accumulate_baseline_visibility_for_source_f rnd brightness sum i
                 source_I source_Q source_U source_V sp sq (r1 * r2) guard)
          [0 .. num_sources - 1] (0, 0))"
    by (simp add: baseline_sum_f_def baseline_lengths_f_closed source_loop_f_def
        smearing_term_f_def gaussian_term_f_def Let_def mult.commute)
  from terms_f terms_d sum_d sum_f acc_d acc_f show ?thesis
    by (intro conjI)
qed

text \<open>
  Claim C3. With \<open>num_sources = 0\<close> the local accumulator (and the guard) of every baseline
  stays zero and the correlator returns the visibility buffer with every entry unchanged.
  The correlator writes the buffer once per visited baseline, at the entries \<open>vis_writes\<close>,
  and nowhere else; with \<open>num_stations < 2\<close> the station loops visit no baseline, no entry
  of the visibility buffer is written, and the buffer is returned as it was. The function
  has no status argument and no return value: there is no error to report in either case.
  This holds under every rounding \<open>rnd\<close> of the accumulation.
\<close>

theorem gaussian_degenerate_counts:
  "baseline_sum_f rnd brightness 0 source_I source_Q source_U source_V source_l source_m
       source_a source_b source_c station_u station_v inv_wavelength frac_bandwidth
       sp sq station_q station_p = (0, 0)
   \<and> baseline_sum_d rnd brightness 0 source_I source_Q source_U source_V source_l source_m
       source_a source_b source_c station_u station_v inv_wavelength frac_bandwidth
       sp sq station_q station_p = 0
   \<and> oskar_correlate_gaussian_omp_f rnd brightness 0 num_stations jones source_I source_Q
       source_U source_V source_l source_m source_a source_b source_c station_u station_v
       inv_wavelength frac_bandwidth vis = vis
   \<and> oskar_correlate_gaussian_omp_d rnd brightness 0 num_stations jones source_I source_Q
       source_U source_V source_l source_m source_a source_b source_c station_u station_v
       inv_wavelength frac_bandwidth vis = vis
   \<and> oskar_correlate_gaussian_omp_f rnd brightness num_sources num_stations jones source_I
       source_Q source_U source_V source_l source_m source_a source_b source_c station_u
       station_v inv_wavelength frac_bandwidth vis =
     fold (\<lambda>b vis.
             vis(baseline_index num_stations (fst b) (snd b) :=
                   vis (baseline_index num_stations (fst b) (snd b)) +
                   fst (baseline_sum_f rnd brightness num_sources source_I source_Q source_U
                     source_V source_l source_m source_a source_b source_c station_u
                     station_v inv_wavelength frac_bandwidth
                     (\<lambda>i. jones (mul32 (snd b) num_sources + i))
                     (\<lambda>i. jones (mul32 (fst b) num_sources + i)) (fst b) (snd b))))
          (baselines_visited num_stations) vis
   \<and> (num_stations < 2 \<longrightarrow>
        baselines_visited num_stations = [] \<and> vis_writes num_stations = []
        \<and> oskar_correlate_gaussian_omp_f rnd brightness num_sources num_stations jones
            source_I source_Q source_U source_V source_l source_m source_a source_b source_c
            station_u station_v inv_wavelength frac_bandwidth vis = vis
        \<and> oskar_correlate_gaussian_omp_d rnd brightness num_sources num_stations jones
            source_I source_Q source_U source_V source_l source_m source_a source_b source_c
            station_u station_v inv_wavelength frac_bandwidth vis = vis)"
proof -
  have "oskar_correlate_gaussian_omp_f rnd brightness num_sources num_stations jones source_I
       source_Q source_U source_V source_l source_m source_a source_b source_c station_u
       station_v inv_wavelength frac_bandwidth vis =
     fold (\<lambda>b vis.
             vis(baseline_index num_stations (fst b) (snd b) :=
                   vis (baseline_index num_stations (fst b) (snd b)) +
                   fst (baseline_sum_f rnd brightness num_sources source_I source_Q source_U
                     source_V source_l source_m source_a source_b source_c station_u
                     station_v inv_wavelength frac_bandwidth
                     (\<lambda>i. jones (mul32 (snd b) num_sources + i))
                     (\<lambda>i. jones (mul32 (fst b) num_sources + i)) (fst b) (snd b))))
          (baselines_visited num_stations) vis"
    by (rule correlate_f_writes)
  then show ?thesis
    by (simp add: baseline_sum_f_no_sources baseline_sum_d_no_sources correlate_f_no_sources
        correlate_d_no_sources correlate_f_no_baselines correlate_d_no_baselines
        baselines_visited_empty vis_writes_def)
qed

theorem gaussian_degenerate_counts_witness:
  "(1::int) < 2
   \<and> baselines_visited 1 = [] \<and> vis_writes 1 = []
   \<and> oskar_correlate_gaussian_omp_f binary32 (\<lambda>I Q U V. Float4c 1 0 0 1) 5 1
        (\<lambda>k. Float4c 1 0 0 1)
        (\<lambda>i. 1) (\<lambda>i. 0) (\<lambda>i. 0) (\<lambda>i. 0) (\<lambda>i. 0) (\<lambda>i. 0) (\<lambda>i. 0) (\<lambda>i. 0) (\<lambda>i. 0)
        (\<lambda>s. 0) (\<lambda>s. 0) 1 0 (\<lambda>k. 0) = (\<lambda>k. 0)"
  using gaussian_degenerate_counts [of binary32 "\<lambda>I Q U V. Float4c 1 0 0 1" "\<lambda>i. 1" "\<lambda>i. 0"
      "\<lambda>i. 0" "\<lambda>i. 0" "\<lambda>i. 0" "\<lambda>i. 0" "\<lambda>i. 0" "\<lambda>i. 0" "\<lambda>i. 0" "\<lambda>s. 0" "\<lambda>s. 0" 1 0
      "\<lambda>i. 0" "\<lambda>i. 0" 0 0 1 "\<lambda>k. Float4c 1 0 0 1" "\<lambda>k. 0" 5]
  by simp

subsection \<open>Unpolarised sources seen through identity Jones matrices\<close>

text \<open>
  With identity Jones matrices, Stokes \<open>Q = U = V = 0\<close>, sources at the phase centre and no
  Gaussian width, the contribution of source \<open>i\<close> is \<open>I\<^sub>i\<close> times the unit matrix with weight
  one, and the accumulation over the sources is the accumulation of the numbers \<open>I\<^sub>i\<close>. All
  operations other than the additions into the accumulator are products with \<open>0\<close> and \<open>1\<close>,
  exact in any format.
\<close>

lemma diag4c_zero: "diag4c 0 = 0"
  by (simp add: diag4c_def zero_float4c_def zero_complex.code)

lemma diag4c_eq_iff: "diag4c x = diag4c y \<longleftrightarrow> x = y"
  by (auto simp: diag4c_def)

lemma diag4c_eq_zero_iff: "diag4c x = 0 \<longleftrightarrow> x = 0"
  using diag4c_eq_iff [of x 0] by (simp add: diag4c_zero)

lemma scale4c_diag: "scale4c r (diag4c x) = diag4c (r * x)"
  by (simp add: scale4c_def diag4c_def complex_eq_iff)

lemma round4c_diag: "rnd 0 = 0 \<Longrightarrow> round4c rnd (diag4c x) = diag4c (rnd x)"
  by (simp add: round4c_def round_c_def diag4c_def zero_complex.code)

lemma diag4c_add: "diag4c x + diag4c y = diag4c (x + y)"
  by (simp add: diag4c_def plus_float4c_def complex_eq_iff)

lemma diag4c_diff: "diag4c x - diag4c y = diag4c (x - y)"
  by (simp add: diag4c_def minus_float4c_def complex_eq_iff)

lemma source_term_diag:
  assumes "sp i = Float4c 1 0 0 1" "sq i = Float4c 1 0 0 1"
  shows "source_term stokes_brightness i source_I zeros zeros zeros sp sq = diag4c (source_I i)"
  using assms
  by (simp add: source_term_def stokes_brightness_def zeros_def mul4c_def herm4c_def
      diag4c_def complex_eq_iff)

lemma accumulate_d_diag:
  assumes "rnd 0 = 0" "sp i = Float4c 1 0 0 1" "sq i = Float4c 1 0 0 1"
  shows "oskar_accumulate_baseline_visibility_for_source_d rnd stokes_brightness (diag4c s) i
           source_I zeros zeros zeros sp sq r = diag4c (rnd (s + r * source_I i))"
  using assms
  by (simp add: oskar_accumulate_baseline_visibility_for_source_d_def source_term_diag
      scale4c_diag diag4c_add round4c_diag)

lemma accumulate_f_diag:
  assumes "rnd 0 = 0" "sp i = Float4c 1 0 0 1" "sq i = Float4c 1 0 0 1"
  shows "oskar_accumulate_baseline_visibility_for_source_f rnd stokes_brightness (diag4c s) i
           source_I zeros zeros zeros sp sq r (diag4c g) =
         (let y = rnd (r * source_I i - g);
              t = rnd (s + y)
          in (diag4c t, diag4c (rnd (rnd (t - s) - y))))"
  using assms
  by (simp add: oskar_accumulate_baseline_visibility_for_source_f_def source_term_diag
      scale4c_diag diag4c_add diag4c_diff round4c_diag Let_def)

lemma source_loop_d_diag:
  assumes "rnd 0 = 0" "\<And>i. sp i = Float4c 1 0 0 1" "\<And>i. sq i = Float4c 1 0 0 1"
  shows "source_loop_d rnd stokes_brightness num_sources source_I zeros zeros zeros
           zeros zeros zeros zeros zeros sp sq 0 0 0 0 0 =
         diag4c (fold (\<lambda>i s. rnd (s + source_I i)) [0 .. num_sources - 1] 0)"
proof -
  have "fold (\<lambda>i sum.
           let r1 = smearing_term_d 0 0 zeros zeros i;
               r2 = gaussian_term_d 0 0 0 zeros zeros zeros i;
               r1 = r1 * r2
           in oskar_accumulate_baseline_visibility_for_source_d rnd stokes_brightness sum i
                source_I zeros zeros zeros sp sq r1) xs (diag4c s) =
        diag4c (fold (\<lambda>i s. rnd (s + source_I i)) xs s)" for xs s
    using assms
    by (induction xs arbitrary: s)
       (simp_all add: accumulate_d_diag smearing_term_d_def gaussian_term_d_def
          oskar_sinc_d_def normalized_sinc_def Let_def)
  from this [of "[0 .. num_sources - 1]" 0] show ?thesis
    by (simp add: source_loop_d_def diag4c_zero)
qed

lemma source_loop_f_diag:
  assumes "rnd 0 = 0" "\<And>i. sp i = Float4c 1 0 0 1" "\<And>i. sq i = Float4c 1 0 0 1"
  shows "source_loop_f rnd stokes_brightness num_sources source_I zeros zeros zeros
           zeros zeros zeros zeros zeros sp sq 0 0 0 0 0 =
         (case fold (\<lambda>i (s, g). let y = rnd (source_I i - g); t = rnd (s + y)
                                 in (t, rnd (rnd (t - s) - y)))
                    [0 .. num_sources - 1] (0, 0) of
            (s, g) \<Rightarrow> (diag4c s, diag4c g))"
proof -
  have "fold (\<lambda>i (sum, guard).
           let r1 = smearing_term_f 0 0 zeros zeros i;
               r2 = gaussian_term_f 0 0 0 zeros zeros zeros i;
               r1 = r1 * r2
           in oskar_accumulate_baseline_visibility_for_source_f rnd stokes_brightness sum i
                source_I zeros zeros zeros sp sq r1 guard) xs (diag4c s, diag4c g) =
        (case fold (\<lambda>i (s, g). let y = rnd (source_I i - g); t = rnd (s + y)
                                in (t, rnd (rnd (t - s) - y))) xs (s, g) of
           (s, g) \<Rightarrow> (diag4c s, diag4c g))" for xs s g
    using assms
    by (induction xs arbitrary: s g)
       (simp_all add: accumulate_f_diag smearing_term_f_def gaussian_term_f_def
          oskar_sinc_f_def normalized_sinc_def Let_def)
  from this [of "[0 .. num_sources - 1]" 0 0] show ?thesis
    by (simp add: source_loop_f_def diag4c_zero)
qed

lemma baseline_lengths_d_at_origin:
  "baseline_lengths_d zeros zeros inv_wavelength frac_bandwidth station_q station_p =
   (0, 0, 0, 0, 0)"
  by (simp add: baseline_lengths_d_def zeros_def)

lemma baseline_lengths_f_at_origin:
  "baseline_lengths_f zeros zeros inv_wavelength frac_bandwidth station_q station_p =
   (0, 0, 0, 0, 0)"
  by (simp add: baseline_lengths_f_def zeros_def)

lemma baseline_sum_d_diag:
  assumes "rnd 0 = 0" "\<And>i. sp i = Float4c 1 0 0 1" "\<And>i. sq i = Float4c 1 0 0 1"
  shows "baseline_sum_d rnd stokes_brightness num_sources source_I zeros zeros zeros
           zeros zeros zeros zeros zeros zeros zeros inv_wavelength frac_bandwidth sp sq
           station_q station_p =
         diag4c (fold (\<lambda>i s. rnd (s + source_I i)) [0 .. num_sources - 1] 0)"
  using assms
  by (simp add: baseline_sum_d_def baseline_lengths_d_at_origin source_loop_d_diag)

lemma baseline_sum_f_diag:
  assumes "rnd 0 = 0" "\<And>i. sp i = Float4c 1 0 0 1" "\<And>i. sq i = Float4c 1 0 0 1"
  shows "baseline_sum_f rnd stokes_brightness num_sources source_I zeros zeros zeros
           zeros zeros zeros zeros zeros zeros zeros inv_wavelength frac_bandwidth sp sq
           station_q station_p =
         (case fold (\<lambda>i (s, g). let y = rnd (source_I i - g); t = rnd (s + y)
                                 in (t, rnd (rnd (t - s) - y)))
                    [0 .. num_sources - 1] (0, 0) of
            (s, g) \<Rightarrow> (diag4c s, diag4c g))"
  using assms
  by (simp add: baseline_sum_f_def baseline_lengths_f_at_origin source_loop_f_diag)

text \<open>Two stations: the single baseline \<open>(0, 1)\<close> is stored in entry \<open>0\<close>.\<close>

lemma baselines_visited_two: "baselines_visited 2 = [(0, 1)]"
  by (simp add: baselines_visited_def upto_rec1)

lemma baseline_index_two: "baseline_index 2 0 1 = 0"
  by (simp add: baseline_index_def sub32_def add32_def mul32_def div32_def int32_def
      signed_divide_int_def)

lemma correlate_d_two_stations:
  "oskar_correlate_gaussian_omp_d rnd brightness num_sources 2 jones source_I source_Q
       source_U source_V source_l source_m source_a source_b source_c station_u station_v
       inv_wavelength frac_bandwidth vis 0 =
   vis 0 + baseline_sum_d rnd brightness num_sources source_I source_Q source_U source_V
             source_l source_m source_a source_b source_c station_u station_v
             inv_wavelength frac_bandwidth
             (\<lambda>i. jones (mul32 1 num_sources + i)) (\<lambda>i. jones (mul32 0 num_sources + i)) 0 1"
  by (simp add: correlate_d_contribution baselines_visited_two baseline_index_two)

lemma correlate_f_two_stations:
  "oskar_correlate_gaussian_omp_f rnd brightness num_sources 2 jones source_I source_Q
       source_U source_V source_l source_m source_a source_b source_c station_u station_v
       inv_wavelength frac_bandwidth vis 0 =
   vis 0 + fst (baseline_sum_f rnd brightness num_sources source_I source_Q source_U source_V
             source_l source_m source_a source_b source_c station_u station_v
             inv_wavelength frac_bandwidth
             (\<lambda>i. jones (mul32 1 num_sources + i)) (\<lambda>i. jones (mul32 0 num_sources + i)) 0 1)"
  by (simp add: correlate_f_contribution baselines_visited_two baseline_index_two)

text \<open>
  The sums of \<open>alternating_I\<close> over two and over four sources in \<open>double\<close>, and of \<open>three_I\<close>
  in \<open>float\<close>, plain and compensated.
\<close>

lemma upto_0_1: "[0 .. 2 - 1] = [0, 1 :: int]"
  by (simp add: upto_rec1)

lemma upto_0_2: "[0 .. 3 - 1] = [0, 1, 2 :: int]"
  by (simp add: upto_rec1)

lemma upto_0_3: "[0 .. 2 * 2 - 1] = [0, 1, 2, 3 :: int]"
  by (simp add: upto_rec1)

lemma binary64_sum_two:
  "fold (\<lambda>i s. binary64 (s + alternating_I i)) [0 .. 2 - 1] 0 = 1 + 1 / 2 ^ 52"
proof -
  have a0: "binary64 (0 + alternating_I 0) = 1"
    by (rule binary64_one) (simp add: alternating_I_def)
  have a1: "binary64 (1 + alternating_I 1) = 1 + 1 / 2 ^ 52"
    by (rule binary64_one_plus) (simp add: alternating_I_def)
  show ?thesis
    by (simp only: upto_0_1 fold_simps o_apply id_apply a0 a1)
qed

lemma binary64_sum_four:
  "fold (\<lambda>i s. binary64 (s + alternating_I i)) [0 .. 2 * 2 - 1] 0 = 2"
proof -
  have a0: "binary64 (0 + alternating_I 0) = 1"
    by (rule binary64_one) (simp add: alternating_I_def)
  have a1: "binary64 (1 + alternating_I 1) = 1 + 1 / 2 ^ 52"
    by (rule binary64_one_plus) (simp add: alternating_I_def)
  have a2: "binary64 (1 + 1 / 2 ^ 52 + alternating_I 2) = 2"
    by (rule binary64_two_tie) (simp add: alternating_I_def)
  have a3: "binary64 (2 + alternating_I 3) = 2"
    by (rule binary64_two_plus) (simp add: alternating_I_def)
  show ?thesis
    by (simp only: upto_0_3 fold_simps o_apply id_apply a0 a1 a2 a3)
qed

lemma binary32_plain_sum_three:
  "fold (\<lambda>i s. binary32 (s + three_I i)) [0 .. 3 - 1] 0 = 1 + 1 / 2 ^ 22"
proof -
  have a0: "binary32 (0 + three_I 0) = 1"
    by (rule binary32_one) (simp add: three_I_def)
  have a1: "binary32 (1 + three_I 1) = 1 + 1 / 2 ^ 23"
    by (rule binary32_one_plus) (simp add: three_I_def)
  have a2: "binary32 (1 + 1 / 2 ^ 23 + three_I 2) = 1 + 1 / 2 ^ 22"
    by (rule binary32_tie) (simp add: three_I_def)
  show ?thesis
    by (simp only: upto_0_2 fold_simps o_apply id_apply a0 a1 a2)
qed

lemma binary32_kahan_sum_three:
  "fold (\<lambda>i (s, g). let y = binary32 (three_I i - g); t = binary32 (s + y)
                     in (t, binary32 (binary32 (t - s) - y)))
        [0 .. 3 - 1] (0, 0) = (1 + 1 / 2 ^ 23, - (1 / 2 ^ 25))"
proof -
  define step where "step = (\<lambda>(i::int) (s, g).
      let y = binary32 (three_I i - g); t = binary32 (s + y)
      in (t, binary32 (binary32 (t - s) - y)))"
  have k0: "step 0 (0, 0) = (1, 0)"
  proof -
    have "binary32 (three_I 0 - 0) = 1"
      by (rule binary32_one) (simp add: three_I_def)
    moreover have "binary32 (0 + 1) = 1"
      by (rule binary32_one) simp
    moreover have "binary32 (binary32 (1 - 0) - 1) = 0"
      by (simp add: binary32_one binary32_zero)
    ultimately show ?thesis by (simp add: step_def Let_def)
  qed
  have k1: "step 1 (1, 0) = (1 + 1 / 2 ^ 23, 1 / 2 ^ 25)"
  proof -
    have y: "binary32 (three_I 1 - 0) = 3 / 2 ^ 25"
      by (rule binary32_term) (simp add: three_I_def)
    have t: "binary32 (1 + 3 / 2 ^ 25) = 1 + 1 / 2 ^ 23"
      by (rule binary32_one_plus) simp
    have d: "binary32 (1 + 1 / 2 ^ 23 - 1) = 1 / 2 ^ 23"
      by (rule binary32_ulp) simp
    have g: "binary32 (1 / 2 ^ 23 - 3 / 2 ^ 25) = 1 / 2 ^ 25"
      by (rule binary32_guard) simp
    show ?thesis
      unfolding step_def by (simp only: prod.case Let_def y t d g)
  qed
  have k2: "step 2 (1 + 1 / 2 ^ 23, 1 / 2 ^ 25) = (1 + 1 / 2 ^ 23, - (1 / 2 ^ 25))"
  proof -
    have y: "binary32 (three_I 2 - 1 / 2 ^ 25) = 1 / 2 ^ 25"
      by (rule binary32_guard) (simp add: three_I_def)
    have t: "binary32 (1 + 1 / 2 ^ 23 + 1 / 2 ^ 25) = 1 + 1 / 2 ^ 23"
      by (rule binary32_quarter) simp
    have d: "binary32 (1 + 1 / 2 ^ 23 - (1 + 1 / 2 ^ 23)) = 0"
      by (simp add: binary32_zero)
    have g: "binary32 (0 - 1 / 2 ^ 25) = - (1 / 2 ^ 25)"
      by (rule binary32_neg_guard) simp
    show ?thesis
      unfolding step_def by (simp only: prod.case Let_def y t d g)
  qed
  have "fold step [0 .. 3 - 1] (0, 0) = (1 + 1 / 2 ^ 23, - (1 / 2 ^ 25))"
    by (simp only: upto_0_2 fold_simps o_apply id_apply k0 k1 k2)
  then show ?thesis by (simp only: step_def)
qed

text \<open>The sum \<open>1 + 5 * 2\<^sup>-\<^sup>2\<^sup>5\<close> of the three values, rounded once, is the compensated result.\<close>

lemma binary32_exact_sum_three:
  "binary32 (three_I 0 + three_I 1 + three_I 2) = 1 + 1 / 2 ^ 23"
  by (subst binary32_1_2; simp add: three_I_def)
     (subst round_to_multiple_eval [where k = "2 ^ 23 + 1"]; simp)

text \<open>
  Claim C5 (as amended). Over exact real arithmetic (\<open>rnd = exact\<close>): if the source arrays of
  a second call are those of the first followed by an identical copy, the Jones source
  vector of every station likewise, and \<open>num_sources\<close> is doubled, then for every entry \<open>k\<close>
  of the visibility buffer the contribution added by the second call (the entry after the
  call minus the entry before) is twice the contribution added by the first. Both
  precisions. With the additions rounded to the floating-point format the second half of
  the doubled source loop accumulates the same terms onto the sum of the first half
  (\<open>source_loop_d_doubled_rounded\<close>, \<open>source_loop_f_doubled_rounded\<close>), and the result is
  in general not the double of that sum; see the counterexample below.
\<close>

theorem doubling_sources_doubles_contribution:
  assumes "duplicated num_sources source_I source_I'" "duplicated num_sources source_Q source_Q'"
    and "duplicated num_sources source_U source_U'" "duplicated num_sources source_V source_V'"
    and "duplicated num_sources source_l source_l'" "duplicated num_sources source_m source_m'"
    and "duplicated num_sources source_a source_a'" "duplicated num_sources source_b source_b'"
    and "duplicated num_sources source_c source_c'"
    and "jones_duplicated num_sources num_stations jones jones'"
  shows "oskar_correlate_gaussian_omp_f exact brightness (2 * num_sources) num_stations jones'
           source_I' source_Q' source_U' source_V' source_l' source_m' source_a' source_b'
           source_c' station_u station_v inv_wavelength frac_bandwidth vis k - vis k =
         scale4c 2 (oskar_correlate_gaussian_omp_f exact brightness num_sources num_stations
           jones source_I source_Q source_U source_V source_l source_m source_a source_b
           source_c station_u station_v inv_wavelength frac_bandwidth vis k - vis k)
       \<and> oskar_correlate_gaussian_omp_d exact brightness (2 * num_sources) num_stations jones'
           source_I' source_Q' source_U' source_V' source_l' source_m' source_a' source_b'
           source_c' station_u station_v inv_wavelength frac_bandwidth vis k - vis k =
         scale4c 2 (oskar_correlate_gaussian_omp_d exact brightness num_sources num_stations
           jones source_I source_Q source_U source_V source_l source_m source_a source_b
           source_c station_u station_v inv_wavelength frac_bandwidth vis k - vis k)"
proof -
  have d: "oskar_correlate_gaussian_omp_d exact brightness (2 * num_sources) num_stations
           jones' source_I' source_Q' source_U' source_V' source_l' source_m' source_a'
           source_b' source_c' station_u station_v inv_wavelength fb vis k - vis k =
         scale4c 2 (oskar_correlate_gaussian_omp_d exact brightness num_sources num_stations
           jones source_I source_Q source_U source_V source_l source_m source_a source_b
           source_c station_u station_v inv_wavelength fb vis k - vis k)" for fb
    using assms(10) by (intro correlate_d_doubled assms(1-9)) (simp add: jones_duplicated_def)
  from d [of frac_bandwidth] d [of "M_PIf * frac_bandwidth / M_PI"]
  show ?thesis by (simp only: correlate_f_d)
qed

theorem doubling_sources_doubles_contribution_witness:
  "duplicated 1 (\<lambda>i. 1 + of_int i) (\<lambda>i::int. 1::real)
   \<and> duplicated 1 (\<lambda>i::int. 0::real) (\<lambda>i. 0)
   \<and> jones_duplicated 1 2 (\<lambda>k. Float4c 1 0 0 1) (\<lambda>k. Float4c 1 0 0 1)
   \<and> oskar_correlate_gaussian_omp_d exact
        (\<lambda>I Q U V. Float4c (Complex I 0) 0 0 (Complex I 0))
        (2 * 1) 2 (\<lambda>k. Float4c 1 0 0 1)
        (\<lambda>i. 1) (\<lambda>i. 0) (\<lambda>i. 0) (\<lambda>i. 0) (\<lambda>i. 0) (\<lambda>i. 0) (\<lambda>i. 0) (\<lambda>i. 0) (\<lambda>i. 0)
        (\<lambda>s. of_int s) (\<lambda>s. 0) 1 0 (\<lambda>k. 0) 0 - (\<lambda>k. 0) 0 =
      scale4c 2 (oskar_correlate_gaussian_omp_d exact
        (\<lambda>I Q U V. Float4c (Complex I 0) 0 0 (Complex I 0)) 1 2 (\<lambda>k. Float4c 1 0 0 1)
        (\<lambda>i. 1 + of_int i) (\<lambda>i. 0) (\<lambda>i. 0) (\<lambda>i. 0) (\<lambda>i. 0) (\<lambda>i. 0) (\<lambda>i. 0) (\<lambda>i. 0) (\<lambda>i. 0)
        (\<lambda>s. of_int s) (\<lambda>s. 0) 1 0 (\<lambda>k. 0) 0 - (\<lambda>k. 0) 0)"
proof -
  have dI: "duplicated 1 (\<lambda>i. 1 + of_int i) (\<lambda>i::int. 1::real)"
    by (simp add: duplicated_def)
  have d0: "duplicated 1 (\<lambda>i::int. 0::real) (\<lambda>i. 0)"
    by (simp add: duplicated_def)
  have dj: "jones_duplicated 1 2 (\<lambda>k. Float4c 1 0 0 1) (\<lambda>k. Float4c 1 0 0 1)"
    by (simp add: jones_duplicated_def duplicated_def)
  from doubling_sources_doubles_contribution [OF dI d0 d0 d0 d0 d0 d0 d0 d0 dj,
      of "\<lambda>I Q U V. Float4c (Complex I 0) 0 0 (Complex I 0)" "\<lambda>s. of_int s" "\<lambda>s. 0" 1 0
         "\<lambda>k. 0" 0]
  show ?thesis using dI d0 dj by simp
qed

text \<open>
  Claim C5 as stated (doubling the sources exactly doubles every entry) fails on the
  double-precision kernel with its additions rounded to \<open>double\<close>. Two stations, identity
  Jones matrices, two sources with Stokes \<open>I = 1\<close> and \<open>I = 0.75 * 2\<^sup>-\<^sup>5\<^sup>2\<close>, everything else
  zero: the entry of the baseline is \<open>1 + 2\<^sup>-\<^sup>5\<^sup>2\<close> (\<open>0x1.0000000000001p+0\<close>). With the two
  sources repeated (four sources) the entry is \<open>2\<close>, not \<open>2 + 2\<^sup>-\<^sup>5\<^sup>1\<close>: the third addition
  \<open>(1 + 2\<^sup>-\<^sup>5\<^sup>2) + 1\<close> lies halfway between \<open>2\<close> and \<open>2 + 2\<^sup>-\<^sup>5\<^sup>1\<close> and rounds to \<open>2\<close>, and
  the fourth addition \<open>2 + 0.75 * 2\<^sup>-\<^sup>5\<^sup>2\<close> rounds to \<open>2\<close> again.
\<close>

theorem doubling_sources_rounding_counterexample:
  "duplicated 2 alternating_I alternating_I
   \<and> duplicated 2 zeros zeros
   \<and> jones_duplicated 2 2 identity_jones identity_jones
   \<and> oskar_correlate_gaussian_omp_d binary64 stokes_brightness 2 2 identity_jones
        alternating_I zeros zeros zeros zeros zeros zeros zeros zeros zeros zeros 1 0
        empty_vis 0 - empty_vis 0 = diag4c (1 + 1 / 2 ^ 52)
   \<and> oskar_correlate_gaussian_omp_d binary64 stokes_brightness (2 * 2) 2 identity_jones
        alternating_I zeros zeros zeros zeros zeros zeros zeros zeros zeros zeros 1 0
        empty_vis 0 - empty_vis 0 = diag4c 2
   \<and> scale4c 2 (diag4c (1 + 1 / 2 ^ 52)) = diag4c (2 + 1 / 2 ^ 51)
   \<and> diag4c 2 \<noteq> diag4c (2 + 1 / 2 ^ 51)"
proof -
  have dI: "duplicated 2 alternating_I alternating_I"
    by (simp add: duplicated_def alternating_I_def)
  have d0: "duplicated 2 zeros zeros"
    by (simp add: duplicated_def zeros_def)
  have dj: "jones_duplicated 2 2 identity_jones identity_jones"
    by (simp add: jones_duplicated_def duplicated_def identity_jones_def)
  have two: "oskar_correlate_gaussian_omp_d binary64 stokes_brightness 2 2 identity_jones
        alternating_I zeros zeros zeros zeros zeros zeros zeros zeros zeros zeros 1 0
        empty_vis 0 - empty_vis 0 = diag4c (1 + 1 / 2 ^ 52)"
  proof -
    have "baseline_sum_d binary64 stokes_brightness 2 alternating_I zeros zeros zeros zeros
            zeros zeros zeros zeros zeros zeros 1 0 (\<lambda>i. identity_jones (mul32 1 2 + i))
            (\<lambda>i. identity_jones (mul32 0 2 + i)) 0 1 =
          diag4c (fold (\<lambda>i s. binary64 (s + alternating_I i)) [0 .. 2 - 1] 0)"
      by (rule baseline_sum_d_diag) (simp_all add: binary64_zero identity_jones_def)
    then show ?thesis
      by (simp only: correlate_d_two_stations add_diff_cancel_left' binary64_sum_two)
  qed
  have four: "oskar_correlate_gaussian_omp_d binary64 stokes_brightness (2 * 2) 2
        identity_jones alternating_I zeros zeros zeros zeros zeros zeros zeros zeros zeros
        zeros 1 0 empty_vis 0 - empty_vis 0 = diag4c 2"
  proof -
    have "baseline_sum_d binary64 stokes_brightness (2 * 2) alternating_I zeros zeros zeros
            zeros zeros zeros zeros zeros zeros zeros 1 0
            (\<lambda>i. identity_jones (mul32 1 (2 * 2) + i))
            (\<lambda>i. identity_jones (mul32 0 (2 * 2) + i)) 0 1 =
          diag4c (fold (\<lambda>i s. binary64 (s + alternating_I i)) [0 .. 2 * 2 - 1] 0)"
      by (rule baseline_sum_d_diag) (simp_all add: binary64_zero identity_jones_def)
    then show ?thesis
      by (simp only: correlate_d_two_stations add_diff_cancel_left' binary64_sum_four)
  qed
  have sc: "scale4c 2 (diag4c (1 + 1 / 2 ^ 52)) = diag4c (2 + 1 / 2 ^ 51)"
    by (simp add: scale4c_diag)
  have ne: "diag4c 2 \<noteq> diag4c (2 + 1 / 2 ^ 51)"
    by (simp add: diag4c_eq_iff)
  from dI d0 dj two four sc ne show ?thesis by (intro conjI)
qed

subsection \<open>The two constants\<close>

text \<open>
  Two stations \<open>2\<^sup>2\<^sup>2\<close> wavelengths apart, one unit source at \<open>l = 1\<close>, full fractional
  bandwidth: the argument of the sinc is \<open>2\<^sup>2\<^sup>2 * M_PIf = 13176795\<close>, an integer, in single
  precision and \<open>2\<^sup>2\<^sup>2 * M_PI = 884279719003555 / 2\<^sup>2\<^sup>6\<close>, not an integer, in double.
\<close>

lemma normalized_sinc_int: "normalized_sinc (of_int k) = (if k = 0 then 1 else 0)"
  by (simp add: normalized_sinc_def sin_npi_int)

lemma normalized_sinc_nonzero:
  assumes "\<And>k. x \<noteq> of_int k"
  shows "normalized_sinc x \<noteq> 0"
proof -
  have "x \<noteq> 0" using assms [of 0] by simp
  moreover have "sin (pi * x) \<noteq> 0"
  proof
    assume "sin (pi * x) = 0"
    then obtain k :: int where "pi * x = of_int k * pi"
      by (auto simp: sin_zero_iff_int2)
    then have "x = of_int k" by simp
    with assms show False by blast
  qed
  ultimately show ?thesis by (simp add: normalized_sinc_def)
qed

lemma double_argument_not_integral: "884279719003555 / 67108864 \<noteq> (of_int k :: real)"
proof
  assume "884279719003555 / 67108864 = (of_int k :: real)"
  then have "(of_int (67108864 * k) :: real) = of_int 884279719003555"
    by simp
  then have "67108864 * k = 884279719003555"
    by (simp only: of_int_eq_iff)
  then have "even (884279719003555 :: int)"
    by (metis dvd_triv_left even_numeral mult.assoc numeral_Bit0 mult_2)
  then show False by simp
qed

lemma far_baseline_sum_f:
  assumes "\<And>i. sp i = Float4c 1 0 0 1" "\<And>i. sq i = Float4c 1 0 0 1"
  shows "baseline_sum_f exact stokes_brightness 1 ones zeros zeros zeros ones zeros
           zeros zeros zeros far_stations zeros 1 1 sp sq 0 1 = (0, 0)"
proof -
  have "normalized_sinc (of_int 13176795) = 0"
    by (simp only: normalized_sinc_int) simp
  then have "normalized_sinc 13176795 = 0" by simp
  then show ?thesis
    using assms
    by (simp add: baseline_sum_f_def baseline_lengths_f_def source_loop_f_def Let_def
        accumulate_f_exact accumulate_d_exact smearing_term_f_def gaussian_term_f_def
        oskar_sinc_f_def far_stations_def ones_def zeros_def M_PIf_def scale4c_def
        zero_float4c_def plus_float4c_def)
qed

lemma far_baseline_sum_d:
  assumes "\<And>i. sp i = Float4c 1 0 0 1" "\<And>i. sq i = Float4c 1 0 0 1"
  shows "baseline_sum_d exact stokes_brightness 1 ones zeros zeros zeros ones zeros
           zeros zeros zeros far_stations zeros 1 1 sp sq 0 1 =
         diag4c (normalized_sinc (884279719003555 / 67108864))"
proof -
  have "source_term stokes_brightness 0 ones zeros zeros zeros sp sq = diag4c 1"
    using assms by (simp add: source_term_diag ones_def)
  then show ?thesis
    by (simp add: baseline_sum_d_def baseline_lengths_d_def source_loop_d_def Let_def
        accumulate_d_exact smearing_term_d_def gaussian_term_d_def
        oskar_sinc_d_def far_stations_def ones_def zeros_def M_PI_def scale4c_diag
        diag4c_zero [symmetric] diag4c_add)
qed

text \<open>
  Claim C7 as stated (the two correlators are identical over exact real arithmetic) fails:
  the two kernels multiply the baseline lengths by different constants, \<open>M_PIf\<close> and
  \<open>M_PI\<close>. On the input above, with nothing rounded, the single-precision kernel adds
  nothing to the entry of the baseline (the sinc of the integer \<open>13176795\<close> is zero) and the
  double-precision kernel adds a non-zero value.
\<close>

theorem single_double_constant_counterexample:
  "oskar_correlate_gaussian_omp_f exact stokes_brightness 1 2 identity_jones
        ones zeros zeros zeros ones zeros zeros zeros zeros far_stations zeros 1 1
        empty_vis 0 = 0
   \<and> oskar_correlate_gaussian_omp_d exact stokes_brightness 1 2 identity_jones
        ones zeros zeros zeros ones zeros zeros zeros zeros far_stations zeros 1 1
        empty_vis 0 = diag4c (normalized_sinc (884279719003555 / 67108864))
   \<and> normalized_sinc (884279719003555 / 67108864) \<noteq> 0
   \<and> oskar_correlate_gaussian_omp_f exact stokes_brightness 1 2 identity_jones
        ones zeros zeros zeros ones zeros zeros zeros zeros far_stations zeros 1 1
        empty_vis 0 \<noteq>
     oskar_correlate_gaussian_omp_d exact stokes_brightness 1 2 identity_jones
        ones zeros zeros zeros ones zeros zeros zeros zeros far_stations zeros 1 1
        empty_vis 0
   \<and> M_PIf * 4194304 = 13176795
   \<and> M_PI * 4194304 = 884279719003555 / 67108864"
proof -
  have f: "oskar_correlate_gaussian_omp_f exact stokes_brightness 1 2 identity_jones
        ones zeros zeros zeros ones zeros zeros zeros zeros far_stations zeros 1 1
        empty_vis 0 = 0"
    by (simp add: correlate_f_two_stations far_baseline_sum_f identity_jones_def empty_vis_def)
  have d: "oskar_correlate_gaussian_omp_d exact stokes_brightness 1 2 identity_jones
        ones zeros zeros zeros ones zeros zeros zeros zeros far_stations zeros 1 1
        empty_vis 0 = diag4c (normalized_sinc (884279719003555 / 67108864))"
    by (simp add: correlate_d_two_stations far_baseline_sum_d identity_jones_def empty_vis_def)
  have ne: "normalized_sinc (884279719003555 / 67108864) \<noteq> 0"
    by (rule normalized_sinc_nonzero) (rule double_argument_not_integral)
  have "diag4c (normalized_sinc (884279719003555 / 67108864)) \<noteq> 0"
    using ne by (simp add: diag4c_eq_zero_iff)
  with f d have neq: "oskar_correlate_gaussian_omp_f exact stokes_brightness 1 2 identity_jones
        ones zeros zeros zeros ones zeros zeros zeros zeros far_stations zeros 1 1
        empty_vis 0 \<noteq>
     oskar_correlate_gaussian_omp_d exact stokes_brightness 1 2 identity_jones
        ones zeros zeros zeros ones zeros zeros zeros zeros far_stations zeros 1 1
        empty_vis 0"
    by (simp only:) simp
  have c: "M_PIf * 4194304 = 13176795" "M_PI * 4194304 = 884279719003555 / 67108864"
    by (simp_all add: M_PIf_def M_PI_def)
  from f d ne neq c show ?thesis by (intro conjI)
qed

text \<open>
  Claim C7 (as amended). The two correlators run the same statements with two different
  constants, \<open>M_PIf \<noteq> M_PI\<close>. Over exact real arithmetic the single-precision correlator at
  fractional bandwidth \<open>frac_bandwidth\<close> is the double-precision correlator at fractional
  bandwidth \<open>M_PIf * frac_bandwidth / M_PI\<close>; the two return the same buffer when
  \<open>frac_bandwidth = 0\<close>. The single-precision source loop threads the pair of the local sum
  and the guard through the accumulation primitive, the double-precision loop the local sum
  alone. Over exact arithmetic the primitive returns a zero guard, whatever guard it is
  given, and the sum of the double-precision primitive less the guard it was given; so the
  guard of a baseline stays zero and the two local sums agree. With the additions rounded
  to \<open>float\<close> the guard is not idle: for the three sources \<open>three_I\<close> seen through identity
  Jones matrices it ends at \<open>- 2\<^sup>-\<^sup>2\<^sup>5\<close> and the compensated sum is \<open>1 + 2\<^sup>-\<^sup>2\<^sup>3\<close>, where the
  accumulation without guard, rounded to the same format, gives \<open>1 + 2\<^sup>-\<^sup>2\<^sup>2\<close>.
\<close>

theorem single_double_same_up_to_constant:
  "M_PIf \<noteq> M_PI
   \<and> oskar_correlate_gaussian_omp_f exact brightness num_sources num_stations jones source_I
       source_Q source_U source_V source_l source_m source_a source_b source_c station_u
       station_v inv_wavelength frac_bandwidth vis =
     oskar_correlate_gaussian_omp_d exact brightness num_sources num_stations jones source_I
       source_Q source_U source_V source_l source_m source_a source_b source_c station_u
       station_v inv_wavelength (M_PIf * frac_bandwidth / M_PI) vis
   \<and> oskar_correlate_gaussian_omp_f exact brightness num_sources num_stations jones source_I
       source_Q source_U source_V source_l source_m source_a source_b source_c station_u
       station_v inv_wavelength 0 vis =
     oskar_correlate_gaussian_omp_d exact brightness num_sources num_stations jones source_I
       source_Q source_U source_V source_l source_m source_a source_b source_c station_u
       station_v inv_wavelength 0 vis
   \<and> baseline_sum_f exact brightness num_sources source_I source_Q source_U source_V source_l
       source_m source_a source_b source_c station_u station_v inv_wavelength frac_bandwidth
       sp sq station_q station_p =
     (baseline_sum_d exact brightness num_sources source_I source_Q source_U source_V source_l
       source_m source_a source_b source_c station_u station_v inv_wavelength
       (M_PIf * frac_bandwidth / M_PI) sp sq station_q station_p, 0)
   \<and> oskar_accumulate_baseline_visibility_for_source_f exact brightness sum0 i source_I
       source_Q source_U source_V sp sq r1 guard0 =
     (oskar_accumulate_baseline_visibility_for_source_d exact brightness sum0 i source_I
       source_Q source_U source_V sp sq r1 - guard0, 0)
   \<and> source_loop_f rnd brightness num_sources source_I source_Q source_U source_V source_l
       source_m source_a source_b source_c sp sq uu vv uu2 vv2 uuvv =
     fold (\<lambda>i (sum, guard).
             oskar_accumulate_baseline_visibility_for_source_f rnd brightness sum i
               source_I source_Q source_U source_V sp sq
               (smearing_term_f uu vv source_l source_m i *
                gaussian_term_f uu2 vv2 uuvv source_a source_b source_c i) guard)
          [0 .. num_sources - 1] (0, 0)
   \<and> source_loop_d rnd brightness num_sources source_I source_Q source_U source_V source_l
       source_m source_a source_b source_c sp sq uu vv uu2 vv2 uuvv =
     fold (\<lambda>i sum.
             oskar_accumulate_baseline_visibility_for_source_d rnd brightness sum i
               source_I source_Q source_U source_V sp sq
               (smearing_term_d uu vv source_l source_m i *
                gaussian_term_d uu2 vv2 uuvv source_a source_b source_c i))
          [0 .. num_sources - 1] 0
   \<and> smearing_term_f uu vv source_l source_m i = smearing_term_d uu vv source_l source_m i
   \<and> gaussian_term_f uu2 vv2 uuvv source_a source_b source_c i =
     gaussian_term_d uu2 vv2 uuvv source_a source_b source_c i
   \<and> baseline_sum_f binary32 stokes_brightness 3 three_I zeros zeros zeros zeros zeros zeros
       zeros zeros zeros zeros 1 0 identity_jones identity_jones 0 1 =
     (diag4c (1 + 1 / 2 ^ 23), diag4c (- (1 / 2 ^ 25)))
   \<and> baseline_sum_d binary32 stokes_brightness 3 three_I zeros zeros zeros zeros zeros zeros
       zeros zeros zeros zeros 1 0 identity_jones identity_jones 0 1 =
     diag4c (1 + 1 / 2 ^ 22)"
proof -
  have kahan: "baseline_sum_f binary32 stokes_brightness 3 three_I zeros zeros zeros zeros
       zeros zeros zeros zeros zeros zeros 1 0 identity_jones identity_jones 0 1 =
     (diag4c (1 + 1 / 2 ^ 23), diag4c (- (1 / 2 ^ 25)))"
  proof -
    have "baseline_sum_f binary32 stokes_brightness 3 three_I zeros zeros zeros zeros
       zeros zeros zeros zeros zeros zeros 1 0 identity_jones identity_jones 0 1 =
       (case fold (\<lambda>i (s, g). let y = binary32 (three_I i - g); t = binary32 (s + y)
                               in (t, binary32 (binary32 (t - s) - y)))
                  [0 .. 3 - 1] (0, 0) of
          (s, g) \<Rightarrow> (diag4c s, diag4c g))"
      by (rule baseline_sum_f_diag) (simp_all add: binary32_zero identity_jones_def)
    then show ?thesis
      by (simp only: binary32_kahan_sum_three prod.case)
  qed
  have plain: "baseline_sum_d binary32 stokes_brightness 3 three_I zeros zeros zeros zeros
       zeros zeros zeros zeros zeros zeros 1 0 identity_jones identity_jones 0 1 =
     diag4c (1 + 1 / 2 ^ 22)"
  proof -
    have "baseline_sum_d binary32 stokes_brightness 3 three_I zeros zeros zeros zeros
       zeros zeros zeros zeros zeros zeros 1 0 identity_jones identity_jones 0 1 =
       diag4c (fold (\<lambda>i s. binary32 (s + three_I i)) [0 .. 3 - 1] 0)"
      by (rule baseline_sum_d_diag) (simp_all add: binary32_zero identity_jones_def)
    then show ?thesis
      by (simp only: binary32_plain_sum_three)
  qed
  have loop_f: "source_loop_f rnd brightness num_sources source_I source_Q source_U source_V
       source_l source_m source_a source_b source_c sp sq uu vv uu2 vv2 uuvv =
     fold (\<lambda>i (sum, guard).
             oskar_accumulate_baseline_visibility_for_source_f rnd brightness sum i
               source_I source_Q source_U source_V sp sq
               (smearing_term_f uu vv source_l source_m i *
                gaussian_term_f uu2 vv2 uuvv source_a source_b source_c i) guard)
          [0 .. num_sources - 1] (0, 0)"
    by (simp add: source_loop_f_def Let_def)
  have loop_d: "source_loop_d rnd brightness num_sources source_I source_Q source_U source_V
       source_l source_m source_a source_b source_c sp sq uu vv uu2 vv2 uuvv =
     fold (\<lambda>i sum.
             oskar_accumulate_baseline_visibility_for_source_d rnd brightness sum i
               source_I source_Q source_U source_V sp sq
               (smearing_term_d uu vv source_l source_m i *
                gaussian_term_d uu2 vv2 uuvv source_a source_b source_c i))
          [0 .. num_sources - 1] 0"
    by (simp add: source_loop_d_def Let_def)
  from M_PIf_differs(1) correlate_f_d correlate_no_bandwidth baseline_sum_f_d
    accumulate_f_exact loop_f loop_d smearing_term_f_d gaussian_term_f_d kahan plain
  show ?thesis by (intro conjI)
qed

text \<open>
  Claim C4. \<open>normalized_sinc 0 = 1\<close>, by the case distinction and not by a division, and
  \<open>normalized_sinc\<close> is even. It is the function \<open>oskar_sinc_f\<close> (\<open>oskar_sinc_d\<close>) that the
  source loop applies to the smearing argument \<open>uu * l + vv * m\<close>.
\<close>

theorem normalized_sinc_zero_and_even:
  "normalized_sinc 0 = 1
   \<and> normalized_sinc (- x) = normalized_sinc x
   \<and> oskar_sinc_f 0 = 1 \<and> oskar_sinc_f (- x) = oskar_sinc_f x
   \<and> oskar_sinc_d 0 = 1 \<and> oskar_sinc_d (- x) = oskar_sinc_d x
   \<and> smearing_term_f uu vv source_l source_m i =
       normalized_sinc (uu * source_l i + vv * source_m i)
   \<and> smearing_term_d uu vv source_l source_m i =
       normalized_sinc (uu * source_l i + vv * source_m i)"
  by (simp add: normalized_sinc_def oskar_sinc_f_def oskar_sinc_d_def smearing_term_f_def
      smearing_term_d_def Let_def)

section \<open>A worked scenario of the correlator\<close>

text \<open>
  Three stations on a line, one source at the phase centre with unit Stokes \<open>I\<close>, identity
  Jones matrices, zero bandwidth and a point-like shape: each of the three baselines
  receives the unit matrix.
\<close>

lemma baselines_visited_three: "baselines_visited 3 = [(0, 1), (0, 2), (1, 2)]"
  by (simp add: baselines_visited_def upto_rec1)

lemma baseline_index_three:
  "baseline_index 3 0 1 = 0" "baseline_index 3 0 2 = 1" "baseline_index 3 1 2 = 2"
  by (simp_all add: baseline_index_def sub32_def add32_def mul32_def div32_def int32_def
      signed_divide_int_def)

lemma unit_source_baseline_sum:
  "baseline_sum_d exact stokes_brightness 1 ones zeros zeros zeros zeros zeros zeros zeros
     zeros station_line zeros 1 0 (\<lambda>i. identity_jones (j + i)) (\<lambda>i. identity_jones (k + i))
     q p =
   Float4c 1 0 0 1"
  by (simp add: baseline_sum_d_def baseline_lengths_d_def source_loop_d_def Let_def
      smearing_term_d_def gaussian_term_d_def oskar_sinc_d_def normalized_sinc_def
      accumulate_d_exact source_term_def
      stokes_brightness_def identity_jones_def zeros_def ones_def mul4c_def herm4c_def
      scale4c_def zero_float4c_def plus_float4c_def complex_eq_iff one_complex.code)

lemma three_station_unit_source:
  "oskar_correlate_gaussian_omp_d exact stokes_brightness 1 3 identity_jones
     ones zeros zeros zeros zeros zeros zeros zeros zeros station_line zeros 1 0 empty_vis k =
   (if k = 0 \<or> k = 1 \<or> k = 2 then Float4c 1 0 0 1 else 0)"
  by (simp add: correlate_d_contribution baselines_visited_three baseline_index_three
      unit_source_baseline_sum empty_vis_def)

section \<open>Properties of the cross-power beam\<close>

lemma fp_add_zero_left: "fp_add (Finite 0) v = v"
  by (cases v) simp_all

lemma fp_add_zero_right: "fp_add v (Finite 0) = v"
  by (cases v) simp_all

lemma fp_mul_one_right: "fp_mul v (Finite 1) = v"
  by (cases v) (simp_all add: fp_signed_inf_def)

lemma fold_store:
  "fold (\<lambda>i beam. beam(i := g i)) xs beam k = (if k \<in> set xs then g k else beam k)"
  by (induction xs arbitrary: beam) simp_all

lemma beam_f_entry:
  "oskar_evaluate_average_scalar_cross_power_beam_omp_f num_sources num_stations jones beam k =
     (if 0 \<le> k \<and> k < num_sources
      then Float2 (fp_mul (f2_x (cross_power_f num_sources num_stations jones k))
                          (beam_norm_f num_stations))
                  (fp_mul (f2_y (cross_power_f num_sources num_stations jones k))
                          (beam_norm_f num_stations))
      else beam k)"
  unfolding oskar_evaluate_average_scalar_cross_power_beam_omp_f_def Let_def fold_store
  by auto

lemma upto_zero_one: "[0 .. 1] = [0, 1]"
  by (simp add: upto_rec1)

lemma cross_power_f_two_stations:
  "cross_power_f num_sources 2 jones i =
     multiply_complex_conjugate (jones (add32 (mul32 0 num_sources) i))
                                (jones (add32 (mul32 1 num_sources) i))"
  by (simp add: cross_power_f_def upto_zero_one Let_def
      OSKAR_MULTIPLY_ADD_COMPLEX_CONJUGATE_def fp_add_zero_left fp_add_zero_right)

lemma beam_norm_f_two: "beam_norm_f 2 = Finite 1"
  by (simp add: beam_norm_f_def fp_of_int_def mul32_def sub32_def int32_def)

lemma beam_norm_f_degenerate:
  "num_stations = 0 \<or> num_stations = 1 \<Longrightarrow> beam_norm_f num_stations = PlusInf"
  by (auto simp: beam_norm_f_def fp_of_int_def mul32_def sub32_def int32_def fp_signed_inf_def)

lemma cross_power_f_degenerate:
  "num_stations = 0 \<or> num_stations = 1 \<Longrightarrow>
   cross_power_f num_sources num_stations jones i = Float2 (Finite 0) (Finite 0)"
  by (auto simp: cross_power_f_def Let_def)

lemma beam_d_is_beam_f:
  "oskar_evaluate_average_scalar_cross_power_beam_omp_d =
   oskar_evaluate_average_scalar_cross_power_beam_omp_f"
  "beam_norm_d = beam_norm_f" "cross_power_d = cross_power_f"
  by (simp_all add: fun_eq_iff oskar_evaluate_average_scalar_cross_power_beam_omp_d_def
      oskar_evaluate_average_scalar_cross_power_beam_omp_f_def beam_norm_d_def beam_norm_f_def
      cross_power_d_def cross_power_f_def)

text \<open>
  Claim C6. For \<open>num_stations = 2\<close> and every source \<open>i\<close> of \<open>0 .. num_sources - 1\<close> the
  beam value written is the single-baseline correlation
  \<open>jones[0 * num_sources + i] * conj(jones[1 * num_sources + i])\<close> of the Jones values of the
  two stations, the subscripts being the kernel's own \<open>int\<close> expressions, and the
  normalisation is \<open>2 / (2 * 1) = 1\<close>. Both precisions.
\<close>

theorem two_station_beam_is_single_correlation:
  assumes "0 \<le> i" "i < num_sources"
  shows "oskar_evaluate_average_scalar_cross_power_beam_omp_f num_sources 2 jones beam i =
           multiply_complex_conjugate (jones (add32 (mul32 0 num_sources) i))
                                      (jones (add32 (mul32 1 num_sources) i))
       \<and> beam_norm_f 2 = Finite 1
       \<and> oskar_evaluate_average_scalar_cross_power_beam_omp_d num_sources 2 jones beam i =
           multiply_complex_conjugate (jones (add32 (mul32 0 num_sources) i))
                                      (jones (add32 (mul32 1 num_sources) i))
       \<and> beam_norm_d 2 = Finite 1"
  using assms
  by (simp add: beam_d_is_beam_f beam_f_entry cross_power_f_two_stations beam_norm_f_two
      fp_mul_one_right)

theorem two_station_beam_is_single_correlation_witness:
  "(0::int) \<le> 0 \<and> (0::int) < 1
   \<and> oskar_evaluate_average_scalar_cross_power_beam_omp_f 1 2 test_jones2 sevens 0 =
       multiply_complex_conjugate (test_jones2 0) (test_jones2 1)
   \<and> multiply_complex_conjugate (test_jones2 0) (test_jones2 1) =
       Float2 (Finite 11) (Finite 2)"
proof -
  have i: "(0::int) \<le> 0" "(0::int) < 1" by simp_all
  have idx: "add32 (mul32 0 1) 0 = 0" "add32 (mul32 1 1) 0 = 1"
    by (simp_all add: add32_def mul32_def int32_def)
  from two_station_beam_is_single_correlation [OF i, of test_jones2 sevens]
  have "oskar_evaluate_average_scalar_cross_power_beam_omp_f 1 2 test_jones2 sevens 0 =
       multiply_complex_conjugate (test_jones2 0) (test_jones2 1)"
    by (simp only: idx)
  moreover have "multiply_complex_conjugate (test_jones2 0) (test_jones2 1) =
       Float2 (Finite 11) (Finite 2)"
    by (simp add: multiply_complex_conjugate_def test_jones2_def fp_sub_def)
  ultimately show ?thesis using i by (intro conjI)
qed

text \<open>
  Claim C9 (as amended). For \<open>num_stations = 0\<close> or \<open>num_stations = 1\<close> the normalisation
  \<open>2 / (num_stations * (num_stations - 1))\<close> is a division by zero and is plus infinity, and
  every beam entry \<open>i\<close> of \<open>0 .. num_sources - 1\<close> is written as NaN, the product of the
  zero sum and infinity. Both precisions.
\<close>

theorem degenerate_station_count_writes_nan:
  assumes "num_stations = 0 \<or> num_stations = 1" and "0 \<le> i" "i < num_sources"
  shows "beam_norm_f num_stations = PlusInf
       \<and> oskar_evaluate_average_scalar_cross_power_beam_omp_f num_sources num_stations
           jones beam i = Float2 NaN NaN
       \<and> beam_norm_d num_stations = PlusInf
       \<and> oskar_evaluate_average_scalar_cross_power_beam_omp_d num_sources num_stations
           jones beam i = Float2 NaN NaN"
  using assms(2,3)
  by (simp add: beam_d_is_beam_f beam_f_entry cross_power_f_degenerate [OF assms(1)]
      beam_norm_f_degenerate [OF assms(1)] fp_signed_inf_def)

theorem degenerate_station_count_writes_nan_witness:
  "beam_norm_f 1 = PlusInf
   \<and> oskar_evaluate_average_scalar_cross_power_beam_omp_f 1 1 unit_jones sevens 0 =
       Float2 NaN NaN
   \<and> oskar_evaluate_average_scalar_cross_power_beam_omp_f 1 0 unit_jones sevens 0 =
       Float2 NaN NaN"
proof -
  have one: "(1::int) = 0 \<or> (1::int) = 1" and zero: "(0::int) = 0 \<or> (0::int) = 1"
    and i: "(0::int) \<le> 0" "(0::int) < 1"
    by simp_all
  from degenerate_station_count_writes_nan [OF one i, of unit_jones sevens]
    degenerate_station_count_writes_nan [OF zero i, of unit_jones sevens]
  show ?thesis by simp
qed

text \<open>
  Claim C9 as stated (every \<open>num_stations \<le> 1\<close>) fails on the code: for
  \<open>num_stations = -1\<close> the product \<open>(-1) * (-2)\<close> is \<open>2\<close>, the normalisation is \<open>1\<close>, no
  station loop runs, and the entry is set to zero.
\<close>

theorem negative_station_count_counterexample:
  "beam_norm_f (- 1) = Finite 1
   \<and> oskar_evaluate_average_scalar_cross_power_beam_omp_f 1 (- 1) unit_jones sevens 0 =
       Float2 (Finite 0) (Finite 0)"
  by (simp add: beam_f_entry cross_power_f_def beam_norm_f_def fp_of_int_def mul32_def
      sub32_def int32_def)

section \<open>Properties of the station override\<close>





lemma override_leaf_unknown_type:
  assumes "oskar_station_type s \<noteq> OSKAR_DOUBLE E" "oskar_station_type s \<noteq> OSKAR_SINGLE E"
  shows "override_leaf E err s (status, rng) = (s, status, rng)"
  using assms by (simp add: override_leaf_def)

lemma override_station_unknown_type:
  assumes "\<not> oskar_station_has_child s"
    and "oskar_station_type s \<noteq> OSKAR_DOUBLE E" "oskar_station_type s \<noteq> OSKAR_SINGLE E"
  shows "fst (override_station E err s (status, rng)) = s"
    and "oskar_station_location s = OSKAR_LOCATION_CPU E \<Longrightarrow>
         override_station E err s (0, rng) = (s, 0, rng)"
  using assms
  by (cases s; simp add: oskar_station_has_child_def override_leaf_unknown_type)+






text \<open>
  Claim C10. At a station without children whose type is neither \<open>OSKAR_DOUBLE\<close> nor
  \<open>OSKAR_SINGLE\<close> the function returns the station as it was, whatever the status and
  the location; and where the leaf branch is reached (status zero on entry, station in CPU
  memory) the status returned is zero: no error is reported for the unrecognised type.
\<close>

theorem unknown_type_leaf_is_noop:
  assumes "\<not> oskar_station_has_child s"
    and "oskar_station_type s \<noteq> OSKAR_DOUBLE E" "oskar_station_type s \<noteq> OSKAR_SINGLE E"
  shows "fst (oskar_station_override_element_xy_position_errors E (Some s)
                position_error_xy_m (Some e) rng) = Some s
       \<and> (oskar_station_location s = OSKAR_LOCATION_CPU E \<longrightarrow>
            oskar_station_override_element_xy_position_errors E (Some s)
              position_error_xy_m (Some 0) rng = (Some s, Some 0, rng))"
proof -
  have "fst (override_station E position_error_xy_m s (e, rng)) = s"
    using assms by (rule override_station_unknown_type)
  then have "fst (oskar_station_override_element_xy_position_errors E (Some s)
                position_error_xy_m (Some e) rng) = Some s"
    by (cases "override_station E position_error_xy_m s (e, rng)")
      (simp add: oskar_station_override_element_xy_position_errors_def)
  moreover have "oskar_station_location s = OSKAR_LOCATION_CPU E \<longrightarrow>
            oskar_station_override_element_xy_position_errors E (Some s)
              position_error_xy_m (Some 0) rng = (Some s, Some 0, rng)"
    using override_station_unknown_type(2) [OF assms]
    by (simp add: oskar_station_override_element_xy_position_errors_def)
  ultimately show ?thesis by simp
qed

theorem unknown_type_leaf_is_noop_witness:
  "\<not> oskar_station_has_child (test_leaf 0 1)
   \<and> oskar_station_type (test_leaf 0 1) \<noteq> OSKAR_DOUBLE test_env
   \<and> oskar_station_type (test_leaf 0 1) \<noteq> OSKAR_SINGLE test_env
   \<and> oskar_station_location (test_leaf 0 1) = OSKAR_LOCATION_CPU test_env
   \<and> oskar_station_override_element_xy_position_errors test_env (Some (test_leaf 0 1)) 1
       (Some 0) 0 = (Some (test_leaf 0 1), Some 0, 0)"
proof -
  have h: "\<not> oskar_station_has_child (test_leaf 0 1)"
    "oskar_station_type (test_leaf 0 1) \<noteq> OSKAR_DOUBLE test_env"
    "oskar_station_type (test_leaf 0 1) \<noteq> OSKAR_SINGLE test_env"
    and cpu: "oskar_station_location (test_leaf 0 1) = OSKAR_LOCATION_CPU test_env"
    by (simp_all add: oskar_station_has_child_def oskar_station_type_def
        oskar_station_location_def test_leaf_def test_env_def)
  from unknown_type_leaf_is_noop [OF h, of 1 0 0] cpu h show ?thesis by simp
qed

text \<open>
  For comparison, a leaf of type \<open>OSKAR_DOUBLE\<close> in CPU memory: both elements are overridden
  and two pairs of random numbers are drawn.
\<close>

lemma test_double_leaf_overridden:
  "oskar_station_override_element_xy_position_errors test_env (Some (test_leaf 0 8)) 3
     (Some 0) 0 =
   (Some (Station 0 8 2 None ((test_mem 8)\<lparr>mem_data := (\<lambda>i. if i = 0 \<or> i = 1 then 3 else 0)\<rparr>)
            ((test_mem 8)\<lparr>mem_data := (\<lambda>i. if i = 0 \<or> i = 1 then - 3 else 0)\<rparr>)
            (test_mem 8) (test_mem 8)),
    Some 0, 2)"
  by (auto simp: oskar_station_override_element_xy_position_errors_def test_leaf_def
      test_env_def test_mem_def override_leaf_def override_elements_def
      oskar_station_location_def oskar_station_type_def upto_rec1 Let_def fun_eq_iff)

end
